theory Spec2Isabelle
  imports Complex_Main
begin

section \<open>Values shared by the route handlers\<close>

text \<open>
  Times are milliseconds since the epoch, the value of \<^verbatim>\<open>Date.now()\<close>. One request reads
  the clock once: every \<^verbatim>\<open>Date.now()\<close> and \<^verbatim>\<open>new Date()\<close> of one handler run is the
  field \<open>now\<close> of the run's \<open>world\<close> below.
\<close>

type_synonym time = int

datatype json =
    JNull
  | JBool bool
  | JNum real
  | JStr string
  | JArr "json list"
  | JObj "(string \<times> json) list"

record response =
  status :: nat
  body :: json

text \<open>\<^verbatim>\<open>res.json(b)\<close> answers with status 200, \<^verbatim>\<open>res.status(c).json(b)\<close> with status c.\<close>

definition res_json :: "json \<Rightarrow> response" where
  "res_json b = \<lparr>status = 200, body = b\<rparr>"

definition res_status_json :: "nat \<Rightarrow> json \<Rightarrow> response" where
  "res_status_json c b = \<lparr>status = c, body = b\<rparr>"

text \<open>A thrown JavaScript error: its \<^verbatim>\<open>message\<close> and, for the provider's errors, its \<^verbatim>\<open>status\<close>.\<close>

datatype js_error = Error (message: string) (err_status: "nat option")

text \<open>
  \<^verbatim>\<open>Number.prototype.toString\<close> and \<^verbatim>\<open>BigInt.prototype.toString\<close> on an integer value:
  the decimal digits, with a minus sign below zero.
\<close>

definition digit :: "nat \<Rightarrow> char" where
  "digit d = ''0123456789'' ! d"

fun toString_nat :: "nat \<Rightarrow> string" where
  "toString_nat n = (if n < 10 then [digit n] else toString_nat (n div 10) @ [digit (n mod 10)])"

declare toString_nat.simps [simp del]

definition toString :: "int \<Rightarrow> string" where
  "toString i = (if i < 0 then CHR ''-'' # toString_nat (nat (- i)) else toString_nat (nat i))"

text \<open>The value a string of decimal digits denotes, used to state what a code reads as.\<close>

definition digit_value :: "char \<Rightarrow> nat" where
  "digit_value c = of_char c - 48"

definition decimal_value :: "string \<Rightarrow> nat" where
  "decimal_value s = foldl (\<lambda>a c. 10 * a + digit_value c) 0 s"

definition is_digit :: "char \<Rightarrow> bool" where
  "is_digit c = (c \<in> set ''0123456789'')"

section \<open>Configuration and external collaborators\<close>

text \<open>\<^verbatim>\<open>process.env\<close>: a variable is unset (\<open>None\<close>) or a string; the empty string is falsy.\<close>

record process_env =
  TWILIO_ACCOUNT_SID :: "string option"
  TWILIO_AUTH_TOKEN :: "string option"
  TWILIO_VERIFY_SERVICE_SID :: "string option"
  JWT_SECRET :: "string option"

definition truthy :: "string option \<Rightarrow> bool" where
  "truthy v = (case v of None \<Rightarrow> False | Some s \<Rightarrow> s \<noteq> [])"

text \<open>
  The guard of both phone handlers:
  \<^verbatim>\<open>process.env.TWILIO_ACCOUNT_SID && process.env.TWILIO_AUTH_TOKEN && process.env.TWILIO_VERIFY_SERVICE_SID\<close>.
\<close>

definition twilio_configured :: "process_env \<Rightarrow> bool" where
  "twilio_configured env =
     (truthy (TWILIO_ACCOUNT_SID env) \<and> truthy (TWILIO_AUTH_TOKEN env)
      \<and> truthy (TWILIO_VERIFY_SERVICE_SID env))"

text \<open>\<^verbatim>\<open>process.env.JWT_SECRET || 'your-secret-key'\<close>.\<close>

definition jwt_secret :: "process_env \<Rightarrow> string" where
  "jwt_secret env = (if truthy (JWT_SECRET env) then the (JWT_SECRET env) else ''your-secret-key'')"

text \<open>The payload \<^verbatim>\<open>generateToken\<close> signs: \<^verbatim>\<open>{ userId: userId.toString(), iat: Date.now() }\<close>.\<close>

record jwt_payload =
  userId :: string
  iat :: time

text \<open>
  The libraries the handlers call, taken as parameters: the validator behind
  \<^verbatim>\<open>body('phone').isMobilePhone()\<close>, \<^verbatim>\<open>jwt.sign\<close> (payload, secret), \<^verbatim>\<open>jwt.verify\<close>
  (token, secret, at a time; it throws or returns the payload), \<^verbatim>\<open>BigInt\<close> on a
  string (\<open>None\<close> is its SyntaxError), and the runtime's \<^verbatim>\<open>*\<close> and \<^verbatim>\<open>+\<close> on numbers,
  which are doubles.
\<close>

record libs =
  isMobilePhone :: "string \<Rightarrow> bool"
  jwt_sign :: "jwt_payload \<Rightarrow> string \<Rightarrow> string"
  jwt_verify :: "string \<Rightarrow> string \<Rightarrow> time \<Rightarrow> js_error + jwt_payload"
  BigInt :: "string \<Rightarrow> int option"
  number_times :: "real \<Rightarrow> real \<Rightarrow> real"
  number_plus :: "real \<Rightarrow> real \<Rightarrow> real"

text \<open>
  A number of the runtime is a double: an integer of magnitude below 2^53 scaled by a power
  of two, from 2^-1074 up to 2^971. The arithmetic of the runtime gives, for the exact
  result \<open>x\<close> of an operation, a double nearest to \<open>x\<close>.
\<close>

inductive is_double :: "real \<Rightarrow> bool" where
  scaled_up: "\<bar>m\<bar> < 2 ^ 53 \<Longrightarrow> a \<le> 971 \<Longrightarrow> is_double (real_of_int m * 2 ^ a)"
| scaled_down: "\<bar>m\<bar> < 2 ^ 53 \<Longrightarrow> b \<le> 1074 \<Longrightarrow> is_double (real_of_int m / 2 ^ b)"

definition nearest_double :: "real \<Rightarrow> real \<Rightarrow> bool" where
  "nearest_double x d = (is_double d \<and> (\<forall>z. is_double z \<longrightarrow> \<bar>d - x\<bar> \<le> \<bar>z - x\<bar>))"

text \<open>
  What one handler run reads from outside the process: the clock, \<^verbatim>\<open>Math.random()\<close>,
  \<^verbatim>\<open>crypto.randomBytes(32).toString('hex')\<close>, and what the provider answers when its
  \<^verbatim>\<open>verifications.create\<close> or \<^verbatim>\<open>verificationChecks.create\<close> is called: a thrown error
  or, for the check, the \<^verbatim>\<open>status\<close> of the returned object.
\<close>

record world =
  now :: time
  math_random :: real
  random_bytes_hex :: string
  twilio_verifications_create :: "js_error + unit"
  twilio_verification_checks_create :: "js_error + string"

text \<open>
  The calls a handler makes, in order: database calls, random sources, provider calls,
  console. These calls can throw in the model: the two provider calls, which the handlers
  wrap in a \<^verbatim>\<open>try\<close> of their own, \<^verbatim>\<open>jwt.verify\<close>, \<^verbatim>\<open>BigInt\<close> and an update of a row
  that does not exist. The store itself answers every query, and building
  the provider client and signing a token return.
\<close>

datatype effect =
    PhoneVerification_findFirst
  | PhoneVerification_create
  | PhoneVerification_update int
  | User_findUnique
  | User_create
  | User_update
  | CreatorProfile_findUnique
  | Package_create
  | PortfolioItem_create
  | KYC_upsert
  | Math_random
  | Crypto_randomBytes
  | Twilio_verifications_create string
  | Twilio_verificationChecks_create string string
  | Jwt_sign
  | Jwt_verify
  | Console_log string
  | Console_error string

section \<open>The credential store\<close>

text \<open>
  Modelled from the spec: the Prisma schema is not among the sources. The rows carry the
  attributes the spec's data model lists and the handlers read or write; \<open>id\<close> is the
  generated key and \<open>created_at\<close> the creation time the store fills in.
\<close>

record phoneVerification =
  pv_id :: int
  pv_phone :: string
  pv_code :: string
  pv_token :: string
  pv_created_at :: time
  pv_expires_at :: time
  pv_verified_at :: "time option"

record user =
  u_id :: int
  u_email :: "string option"
  u_phone :: "string option"
  u_name :: "string option"
  u_profile_image_url :: "string option"
  u_auth_provider :: "string option"
  u_email_verified :: bool
  u_phone_verified :: bool
  u_user_type :: string
  u_status :: string
  u_last_login_at :: "time option"

record creatorProfile =
  cp_id :: int
  cp_user_id :: int

record package =
  pk_id :: int
  pk_creator_id :: int
  pk_package_type :: string
  pk_title :: string
  pk_description :: string
  pk_platform :: string
  pk_content_type :: string
  pk_quantity :: int
  pk_revisions :: int
  pk_duration :: string
  pk_price :: real
  pk_currency :: string
  pk_status :: string

record portfolioItem =
  pi_id :: int
  pi_creator_id :: int
  pi_media_type :: string
  pi_media_url :: string
  pi_title :: string
  pi_description :: string
  pi_file_size :: int
  pi_mime_type :: string
  pi_status :: string

record kyc =
  kyc_id :: int
  kyc_creator_id :: int
  kyc_document_type :: string
  kyc_document_front_url :: string
  kyc_document_back_url :: string
  kyc_status :: string
  kyc_submitted_at :: time

record db =
  phoneVerifications :: "phoneVerification list"
  users :: "user list"
  creatorProfiles :: "creatorProfile list"
  packages :: "package list"
  portfolioItems :: "portfolioItem list"
  kycs :: "kyc list"

text \<open>A generated key: one more than the largest key of the table.\<close>

definition fresh_id :: "int list \<Rightarrow> int" where
  "fresh_id ids = 1 + foldr max ids 0"

text \<open>
  \<^verbatim>\<open>findFirst({ where, orderBy })\<close>: the first row, in the given order, that the filter
  accepts. Without \<^verbatim>\<open>orderBy\<close> the order is the table's.
\<close>

definition findFirst :: "('r \<Rightarrow> bool) \<Rightarrow> ('r list \<Rightarrow> 'r list) \<Rightarrow> 'r list \<Rightarrow> 'r option" where
  "findFirst wh orderBy rows = (case orderBy (filter wh rows) of [] \<Rightarrow> None | r # _ \<Rightarrow> Some r)"

text \<open>\<^verbatim>\<open>orderBy: { created_at: 'desc' }\<close>: latest first, rows of equal time in table order.\<close>

definition created_at_desc :: "phoneVerification list \<Rightarrow> phoneVerification list" where
  "created_at_desc rows = sort_key (\<lambda>r. - pv_created_at r) rows"

text \<open>
  \<^verbatim>\<open>update({ where: { <unique key>: k }, data })\<close>: the row with that key is rewritten
  and returned; with no such row the call throws (\<open>None\<close>).
\<close>

fun update_where :: "('r \<Rightarrow> bool) \<Rightarrow> ('r \<Rightarrow> 'r) \<Rightarrow> 'r list \<Rightarrow> 'r list" where
  "update_where wh f [] = []"
| "update_where wh f (r # rs) = (if wh r then f r # rs else r # update_where wh f rs)"

definition update_unique :: "('r \<Rightarrow> bool) \<Rightarrow> ('r \<Rightarrow> 'r) \<Rightarrow> 'r list \<Rightarrow> ('r \<times> 'r list) option" where
  "update_unique wh f rows =
     (case find wh rows of None \<Rightarrow> None | Some r \<Rightarrow> Some (f r, update_where wh f rows))"

definition record_not_found :: js_error where
  "record_not_found = Error ''Record to update not found.'' None"

section \<open>Validation middleware\<close>

text \<open>
  \<^verbatim>\<open>validateRequest\<close>: with validation errors the answer is 400 and the handler does not
  run. Each entry of the details, an object of the validator, is rendered by its message,
  the one given to \<^verbatim>\<open>withMessage\<close>, in the order of the chain.
\<close>

definition check :: "bool \<Rightarrow> string \<Rightarrow> string list" where
  "check ok msg = (if ok then [] else [msg])"

definition validation_failed :: "string list \<Rightarrow> response" where
  "validation_failed errors =
     res_status_json 400
       (JObj [(''error'', JStr ''Validation failed''), (''details'', JArr (map JStr errors))])"

record outcome =
  response :: response
  db_after :: db
  effects :: "effect list"

definition validateRequest :: "string list \<Rightarrow> db \<Rightarrow> outcome \<Rightarrow> outcome" where
  "validateRequest errors d next =
     (if errors \<noteq> [] then \<lparr>response = validation_failed errors, db_after = d, effects = []\<rparr>
      else next)"

section \<open>Send phone verification code\<close>

record send_request =
  sr_phone :: string

text \<open>
  \<^verbatim>\<open>Math.floor(100000 + Math.random() * 900000).toString()\<close>: the product and the sum are
  the runtime's, \<^verbatim>\<open>Math.floor\<close> of a double is its floor.
\<close>

definition generate_otp :: "libs \<Rightarrow> real \<Rightarrow> string" where
  "generate_otp L r = toString (\<lfloor>number_plus L 100000 (number_times L r 900000)\<rfloor>)"

text \<open>The cooldown filter: a row of this phone created after \<^verbatim>\<open>Date.now() - 60 * 1000\<close>.\<close>

definition recent_where :: "string \<Rightarrow> time \<Rightarrow> phoneVerification \<Rightarrow> bool" where
  "recent_where phone t r = (pv_phone r = phone \<and> pv_created_at r > t - 60 * 1000)"

definition phoneVerification_create ::
  "time \<Rightarrow> string \<Rightarrow> string \<Rightarrow> string \<Rightarrow> time \<Rightarrow> phoneVerification list \<Rightarrow> phoneVerification list" where
  "phoneVerification_create t phone code token expires rows =
     rows @ [\<lparr>pv_id = fresh_id (map pv_id rows), pv_phone = phone, pv_code = code,
              pv_token = token, pv_created_at = t, pv_expires_at = expires,
              pv_verified_at = None\<rparr>]"

text \<open>
  The dispatch block: with the provider configured the start-verification call is made and
  a failure only logged; without it the code is logged.
\<close>

definition dispatch_sms :: "process_env \<Rightarrow> world \<Rightarrow> string \<Rightarrow> string \<Rightarrow> bool \<times> effect list" where
  "dispatch_sms env w phone otp =
     (if twilio_configured env then
        (case twilio_verifications_create w of
           Inr _ \<Rightarrow>
             (True, [Twilio_verifications_create phone,
                     Console_log (''Verification SMS sent to '' @ phone)])
         | Inl smsError \<Rightarrow>
             (False, [Twilio_verifications_create phone, Console_error ''SMS sending failed:'']
                @ (if err_status smsError = Some 429 then
                     [Console_log (''Rate limit hit for '' @ phone @ ''. OTP: '' @ otp
                                   @ '' (check console for development)''),
                      Console_log ''Please wait before requesting another code or upgrade your Twilio plan'']
                   else
                     [Console_log (''OTP for '' @ phone @ '': '' @ otp
                                   @ '' (SMS failed, using console log)'')])))
      else (False, [Console_log (''OTP for '' @ phone @ '': '' @ otp @ '' (Twilio not configured)'')]))"

definition send_phone_verification_code ::
  "libs \<Rightarrow> process_env \<Rightarrow> world \<Rightarrow> db \<Rightarrow> send_request \<Rightarrow> outcome" where
  "send_phone_verification_code L env w d req =
     validateRequest (check (isMobilePhone L (sr_phone req)) ''Valid phone number is required'') d
       (let phone = sr_phone req;
            recentVerification = findFirst (recent_where phone (now w)) id (phoneVerifications d)
        in if recentVerification \<noteq> None then
             \<lparr>response = res_status_json 429
                 (JObj [(''error'', JStr ''Please wait 1 minute before requesting another code'')]),
              db_after = d,
              effects = [PhoneVerification_findFirst]\<rparr>
           else
             let otp = generate_otp L (math_random w);
                 token = random_bytes_hex w;
                 d' = d\<lparr>phoneVerifications :=
                          phoneVerification_create (now w) phone otp token (now w + 10 * 60 * 1000)
                            (phoneVerifications d)\<rparr>;
                 (smsSent, log) = dispatch_sms env w phone otp
             in \<lparr>response = res_json
                    (JObj [(''success'', JBool True),
                           (''message'', JStr ''Verification code sent successfully''),
                           (''phone'', JStr phone)]),
                 db_after = d',
                 effects = [PhoneVerification_findFirst, Math_random, Crypto_randomBytes,
                            PhoneVerification_create] @ log\<rparr>)"

section \<open>Verify phone code\<close>

record verify_request =
  vr_phone :: string
  vr_code :: string
  vr_fullName :: "string option"

text \<open>\<^verbatim>\<open>generateToken(userId)\<close>.\<close>

definition generateToken :: "libs \<Rightarrow> process_env \<Rightarrow> world \<Rightarrow> int \<Rightarrow> string" where
  "generateToken L env w uid =
     jwt_sign L \<lparr>userId = toString uid, iat = now w\<rparr> (jwt_secret env)"

text \<open>
  The provider block of the handler. The result is the early 400 answer, if any, the flag
  \<^verbatim>\<open>twilioVerification\<close>, and the calls made.
\<close>

definition twilio_check ::
  "process_env \<Rightarrow> world \<Rightarrow> string \<Rightarrow> string \<Rightarrow> response option \<times> bool \<times> effect list" where
  "twilio_check env w phone code =
     (if twilio_configured env then
        (case twilio_verification_checks_create w of
           Inr check_status \<Rightarrow>
             (if check_status = ''approved'' then
                (None, True, [Twilio_verificationChecks_create phone code])
              else
                (Some (res_status_json 400 (JObj [(''error'', JStr ''Invalid verification code'')])),
                 False, [Twilio_verificationChecks_create phone code]))
         | Inl verifyError \<Rightarrow>
             (None, False,
              [Twilio_verificationChecks_create phone code,
               Console_error ''Twilio verification failed:'',
               Console_log (if err_status verifyError = Some 429
                            then ''Twilio rate limit hit, falling back to database verification''
                            else ''Twilio verification error, falling back to database verification'')]))
      else (None, False, []))"

text \<open>The filter of the local check: phone, code, \<^verbatim>\<open>expires_at > now\<close>, \<^verbatim>\<open>verified_at: null\<close>.\<close>

definition verification_where :: "string \<Rightarrow> string \<Rightarrow> time \<Rightarrow> phoneVerification \<Rightarrow> bool" where
  "verification_where phone code t r =
     (pv_phone r = phone \<and> pv_code r = code \<and> pv_expires_at r > t \<and> pv_verified_at r = None)"

definition verify_catch :: "js_error \<Rightarrow> response" where
  "verify_catch e =
     res_status_json 500
       (JObj [(''error'', JStr ''Phone verification failed''), (''message'', JStr (message e))])"

definition invalid_or_expired :: response where
  "invalid_or_expired =
     res_status_json 400 (JObj [(''error'', JStr ''Invalid or expired verification code'')])"

text \<open>
  The database block, run when \<^verbatim>\<open>twilioVerification\<close> is false: \<open>Inl\<close> is the answer that
  ends the request (400, or the outer catch), \<open>Inr\<close> lets the handler go on.
\<close>

definition database_verification ::
  "world \<Rightarrow> string \<Rightarrow> string \<Rightarrow> db \<Rightarrow> (response \<times> db \<times> effect list) + (db \<times> effect list)" where
  "database_verification w phone code d =
     (case findFirst (verification_where phone code (now w)) created_at_desc (phoneVerifications d) of
        None \<Rightarrow> Inl (invalid_or_expired, d, [PhoneVerification_findFirst])
      | Some verification \<Rightarrow>
          (case update_unique (\<lambda>r. pv_id r = pv_id verification)
                  (\<lambda>r. r\<lparr>pv_verified_at := Some (now w)\<rparr>) (phoneVerifications d) of
             None \<Rightarrow>
               Inl (verify_catch record_not_found, d,
                    [PhoneVerification_findFirst, PhoneVerification_update (pv_id verification),
                     Console_error ''Verify OTP error:''])
           | Some (_, rows') \<Rightarrow>
               Inr (d\<lparr>phoneVerifications := rows'\<rparr>,
                    [PhoneVerification_findFirst, PhoneVerification_update (pv_id verification)])))"

text \<open>\<^verbatim>\<open>v || dflt\<close> on a string that may be undefined: the empty string is falsy too.\<close>

definition or_default :: "string option \<Rightarrow> string \<Rightarrow> string" where
  "or_default v dflt = (if truthy v then the v else dflt)"

text \<open>
  \<^verbatim>\<open>prisma.user.create\<close> of the handler; the columns it does not give take the defaults of
  the schema (modelled from the spec: unset, and not verified).
\<close>

definition user_create_phone :: "string \<Rightarrow> string option \<Rightarrow> user list \<Rightarrow> user" where
  "user_create_phone phone fullName rows =
     \<lparr>u_id = fresh_id (map u_id rows), u_email = None, u_phone = Some phone,
      u_name = Some (or_default fullName ''User''), u_profile_image_url = None,
      u_auth_provider = None, u_email_verified = False, u_phone_verified = True,
      u_user_type = ''creator'', u_status = ''active'', u_last_login_at = None\<rparr>"

definition user_login_update :: "time \<Rightarrow> string option \<Rightarrow> user \<Rightarrow> user" where
  "user_login_update t fullName u =
     (let u' = u\<lparr>u_phone_verified := True, u_last_login_at := Some t\<rparr>
      in if truthy fullName then u'\<lparr>u_name := fullName\<rparr> else u')"

definition find_or_create_user ::
  "world \<Rightarrow> string \<Rightarrow> string option \<Rightarrow> db \<Rightarrow> js_error + (user \<times> db \<times> effect list)" where
  "find_or_create_user w phone fullName d =
     (case find (\<lambda>u. u_phone u = Some phone) (users d) of
        None \<Rightarrow>
          (let user = user_create_phone phone fullName (users d)
           in Inr (user, d\<lparr>users := users d @ [user]\<rparr>, [User_findUnique, User_create]))
      | Some found \<Rightarrow>
          (case update_unique (\<lambda>u. u_id u = u_id found) (user_login_update (now w) fullName)
                  (users d) of
             None \<Rightarrow> Inl record_not_found
           | Some (user, rows') \<Rightarrow> Inr (user, d\<lparr>users := rows'\<rparr>, [User_findUnique, User_update])))"

definition json_opt :: "string option \<Rightarrow> json" where
  "json_opt v = (case v of None \<Rightarrow> JNull | Some s \<Rightarrow> JStr s)"

definition verify_success :: "user \<Rightarrow> string \<Rightarrow> response" where
  "verify_success user token =
     res_json
       (JObj [(''success'', JBool True),
              (''message'', JStr ''Phone verification successful''),
              (''user'', JObj [(''id'', JStr (toString (u_id user))),
                               (''phone'', json_opt (u_phone user)),
                               (''name'', json_opt (u_name user)),
                               (''isVerified'', JBool (u_phone_verified user))]),
              (''token'', JStr token)])"

text \<open>
  The handler. Its third validator, \<^verbatim>\<open>body('fullName').optional().isString()\<close>, holds of
  every request of this type: the name is absent or a string.
\<close>

definition verify_phone_code ::
  "libs \<Rightarrow> process_env \<Rightarrow> world \<Rightarrow> db \<Rightarrow> verify_request \<Rightarrow> outcome" where
  "verify_phone_code L env w d req =
     validateRequest
       (check (isMobilePhone L (vr_phone req)) ''Valid phone number is required''
        @ check (length (vr_code req) = 6) ''6-digit code is required'') d
       (let phone = vr_phone req; code = vr_code req; fullName = vr_fullName req
        in case twilio_check env w phone code of
             (Some denied, _, log1) \<Rightarrow> \<lparr>response = denied, db_after = d, effects = log1\<rparr>
           | (None, twilioVerification, log1) \<Rightarrow>
               (case (if \<not> twilioVerification then database_verification w phone code d
                      else Inr (d, [])) of
                  Inl (r, d1, log2) \<Rightarrow> \<lparr>response = r, db_after = d1, effects = log1 @ log2\<rparr>
                | Inr (d1, log2) \<Rightarrow>
                    (case find_or_create_user w phone fullName d1 of
                       Inl e \<Rightarrow>
                         \<lparr>response = verify_catch e, db_after = d1,
                          effects = log1 @ log2 @ [User_findUnique, User_update,
                                                   Console_error ''Verify OTP error:'']\<rparr>
                     | Inr (user, d2, log3) \<Rightarrow>
                         \<lparr>response = verify_success user (generateToken L env w (u_id user)),
                          db_after = d2,
                          effects = log1 @ log2 @ log3 @ [Jwt_sign]\<rparr>)))"

section \<open>Bearer tokens\<close>

text \<open>\<^verbatim>\<open>s.replace(pat, rep)\<close> with a string pattern: the first occurrence only.\<close>

fun replace_first :: "string \<Rightarrow> string \<Rightarrow> string \<Rightarrow> string" where
  "replace_first pat rep [] = (if pat = [] then rep else [])"
| "replace_first pat rep (c # cs) =
     (if take (length pat) (c # cs) = pat then rep @ drop (length pat) (c # cs)
      else c # replace_first pat rep cs)"

text \<open>\<^verbatim>\<open>req.headers.authorization?.replace('Bearer ', '')\<close>; \<open>None\<close> is undefined.\<close>

definition bearer_token :: "string option \<Rightarrow> string option" where
  "bearer_token authorization = map_option (replace_first ''Bearer '' []) authorization"

definition no_token_provided :: response where
  "no_token_provided = res_status_json 401 (JObj [(''error'', JStr ''No token provided'')])"

definition invalid_token :: response where
  "invalid_token = res_status_json 401 (JObj [(''error'', JStr ''Invalid token'')])"

text \<open>
  The middleware \<^verbatim>\<open>authenticateToken\<close> of the profile routes: \<open>Inl\<close> is its own answer,
  \<open>Inr\<close> the \<^verbatim>\<open>req.userId\<close> it hands to the handler.
\<close>

definition authenticateToken ::
  "libs \<Rightarrow> process_env \<Rightarrow> world \<Rightarrow> string option \<Rightarrow> response + string" where
  "authenticateToken L env w authorization =
     (let token = bearer_token authorization
      in if \<not> truthy token then Inl no_token_provided
         else (case jwt_verify L (the token) (jwt_secret env) (now w) of
                 Inr decoded \<Rightarrow> Inr (userId decoded)
               | Inl error \<Rightarrow> Inl invalid_token))"

section \<open>Update name and profile of the auth routes\<close>

record update_name_request =
  un_authorization :: "string option"
  un_name :: string

text \<open>
  The id filter of these two handlers is the token's \<^verbatim>\<open>userId\<close> string itself; it selects
  the user whose id prints as that string.
\<close>

definition update_name_catch :: "js_error \<Rightarrow> response" where
  "update_name_catch e =
     res_status_json 500
       (JObj [(''error'', JStr ''Failed to update name''), (''message'', JStr (message e))])"

definition update_name ::
  "libs \<Rightarrow> process_env \<Rightarrow> world \<Rightarrow> db \<Rightarrow> update_name_request \<Rightarrow> outcome" where
  "update_name L env w d req =
     validateRequest (check (un_name req \<noteq> []) ''Name is required'') d
       (let token = bearer_token (un_authorization req)
        in if \<not> truthy token then \<lparr>response = no_token_provided, db_after = d, effects = []\<rparr>
           else
             (case jwt_verify L (the token) (jwt_secret env) (now w) of
                Inl error \<Rightarrow>
                  \<lparr>response = update_name_catch error, db_after = d,
                   effects = [Jwt_verify, Console_error ''Update name error:'']\<rparr>
              | Inr decoded \<Rightarrow>
                  (case update_unique (\<lambda>u. toString (u_id u) = userId decoded)
                          (\<lambda>u. u\<lparr>u_name := Some (un_name req)\<rparr>) (users d) of
                     None \<Rightarrow>
                       \<lparr>response = update_name_catch record_not_found, db_after = d,
                        effects = [Jwt_verify, User_update, Console_error ''Update name error:'']\<rparr>
                   | Some (user, rows') \<Rightarrow>
                       \<lparr>response = res_json
                          (JObj [(''success'', JBool True),
                                 (''message'', JStr ''Name updated successfully''),
                                 (''user'', JObj [(''id'', JStr (toString (u_id user))),
                                                  (''name'', json_opt (u_name user)),
                                                  (''email'', json_opt (u_email user)),
                                                  (''phone'', json_opt (u_phone user))])]),
                        db_after = d\<lparr>users := rows'\<rparr>,
                        effects = [Jwt_verify, User_update]\<rparr>)))"

definition auth_profile ::
  "libs \<Rightarrow> process_env \<Rightarrow> world \<Rightarrow> db \<Rightarrow> string option \<Rightarrow> outcome" where
  "auth_profile L env w d authorization =
     (let token = bearer_token authorization
      in if \<not> truthy token then \<lparr>response = no_token_provided, db_after = d, effects = []\<rparr>
         else
           (case jwt_verify L (the token) (jwt_secret env) (now w) of
              Inl error \<Rightarrow>
                \<lparr>response = invalid_token, db_after = d,
                 effects = [Jwt_verify, Console_error ''Get profile error:'']\<rparr>
            | Inr decoded \<Rightarrow>
                (case find (\<lambda>u. toString (u_id u) = userId decoded) (users d) of
                   None \<Rightarrow>
                     \<lparr>response = res_status_json 404 (JObj [(''error'', JStr ''User not found'')]),
                      db_after = d, effects = [Jwt_verify, User_findUnique]\<rparr>
                 | Some user \<Rightarrow>
                     \<lparr>response = res_json
                        (JObj [(''success'', JBool True),
                               (''user'', JObj [(''id'', JStr (toString (u_id user))),
                                                (''email'', json_opt (u_email user)),
                                                (''name'', json_opt (u_name user)),
                                                (''phone'', json_opt (u_phone user)),
                                                (''profileImage'', json_opt (u_profile_image_url user)),
                                                (''isVerified'',
                                                  JBool (u_email_verified user \<or> u_phone_verified user)),
                                                (''userType'', JStr (u_user_type user)),
                                                (''status'', JStr (u_status user))])]),
                      db_after = d, effects = [Jwt_verify, User_findUnique]\<rparr>)))"

section \<open>Profile routes\<close>

text \<open>
  \<^verbatim>\<open>String.prototype.toUpperCase\<close> on the ASCII letters; the platforms, media types and
  document types the routes take are ASCII words.
\<close>

definition toUpperCase :: "string \<Rightarrow> string" where
  "toUpperCase s =
     map (\<lambda>c. if 97 \<le> (of_char c :: nat) \<and> (of_char c :: nat) \<le> 122
               then char_of ((of_char c :: nat) - 32) else c) s"

text \<open>
  The route chain is \<^verbatim>\<open>validateRequest, authenticateToken, handler\<close>: a body that fails
  validation is answered before the token is looked at.
\<close>

definition authenticated ::
  "libs \<Rightarrow> process_env \<Rightarrow> world \<Rightarrow> db \<Rightarrow> string option \<Rightarrow> (string \<Rightarrow> outcome) \<Rightarrow> outcome" where
  "authenticated L env w d authorization handler =
     (let called = (if truthy (bearer_token authorization) then [Jwt_verify] else [])
      in case authenticateToken L env w authorization of
           Inl r \<Rightarrow> \<lparr>response = r, db_after = d, effects = called\<rparr>
         | Inr uid \<Rightarrow>
             \<lparr>response = response (handler uid), db_after = db_after (handler uid),
              effects = called @ effects (handler uid)\<rparr>)"

definition creator_profile_not_found :: response where
  "creator_profile_not_found =
     res_status_json 400 (JObj [(''error'', JStr ''Creator profile not found'')])"

definition internal_error :: "string \<Rightarrow> js_error \<Rightarrow> response" where
  "internal_error what e =
     res_status_json 500 (JObj [(''error'', JStr what), (''message'', JStr (message e))])"

definition bigint_syntax_error :: "string \<Rightarrow> js_error" where
  "bigint_syntax_error v = Error (''Cannot convert '' @ v @ '' to a BigInt'') None"

subsection \<open>Create package\<close>

text \<open>
  The body's numbers are typed: \<^verbatim>\<open>parseInt\<close> and \<^verbatim>\<open>parseFloat\<close> of the handler are the
  identity on them, and the validators \<^verbatim>\<open>isInt({ min })\<close>, \<^verbatim>\<open>isFloat({ min })\<close> are the
  bounds.
\<close>

record package_request =
  pr_authorization :: "string option"
  pr_platform :: string
  pr_contentType :: string
  pr_quantity :: int
  pr_revisions :: int
  pr_duration1 :: string
  pr_duration2 :: string
  pr_price :: real
  pr_description :: "string option"

definition package_validation :: "package_request \<Rightarrow> string list" where
  "package_validation req =
     check (pr_platform req \<noteq> []) ''Platform is required''
     @ check (pr_contentType req \<noteq> []) ''Content type is required''
     @ check (pr_quantity req \<ge> 1) ''Valid quantity required''
     @ check (pr_revisions req \<ge> 0) ''Valid revisions required''
     @ check (pr_duration1 req \<noteq> []) ''Duration 1 is required''
     @ check (pr_duration2 req \<noteq> []) ''Duration 2 is required''
     @ check (pr_price req \<ge> 0) ''Valid price required''"

definition package_of_request :: "int \<Rightarrow> int \<Rightarrow> package_request \<Rightarrow> package" where
  "package_of_request new_id creator req =
     \<lparr>pk_id = new_id, pk_creator_id = creator, pk_package_type = ''content'',
      pk_title = pr_platform req @ '' '' @ pr_contentType req,
      pk_description = or_default (pr_description req) [],
      pk_platform = toUpperCase (pr_platform req),
      pk_content_type = pr_contentType req,
      pk_quantity = pr_quantity req, pk_revisions = pr_revisions req,
      pk_duration = pr_duration1 req @ '' '' @ pr_duration2 req,
      pk_price = pr_price req, pk_currency = ''INR'', pk_status = ''active''\<rparr>"

definition package_json :: "package \<Rightarrow> json" where
  "package_json p =
     JObj [(''id'', JNum (of_int (pk_id p))), (''creator_id'', JNum (of_int (pk_creator_id p))),
           (''package_type'', JStr (pk_package_type p)), (''title'', JStr (pk_title p)),
           (''description'', JStr (pk_description p)), (''platform'', JStr (pk_platform p)),
           (''content_type'', JStr (pk_content_type p)),
           (''quantity'', JNum (of_int (pk_quantity p))),
           (''revisions'', JNum (of_int (pk_revisions p))),
           (''duration'', JStr (pk_duration p)), (''price'', JNum (pk_price p)),
           (''currency'', JStr (pk_currency p)), (''status'', JStr (pk_status p))]"

definition create_package ::
  "libs \<Rightarrow> process_env \<Rightarrow> world \<Rightarrow> db \<Rightarrow> package_request \<Rightarrow> outcome" where
  "create_package L env w d req =
     validateRequest (package_validation req) d
       (authenticated L env w d (pr_authorization req)
          (\<lambda>req_userId.
             case BigInt L req_userId of
               None \<Rightarrow>
                 \<lparr>response = internal_error ''Failed to create package'' (bigint_syntax_error req_userId),
                  db_after = d, effects = [Console_error ''Create package error:'']\<rparr>
             | Some uid \<Rightarrow>
                 (case find (\<lambda>c. cp_user_id c = uid) (creatorProfiles d) of
                    None \<Rightarrow>
                      \<lparr>response = creator_profile_not_found, db_after = d,
                       effects = [CreatorProfile_findUnique]\<rparr>
                  | Some creatorProfile \<Rightarrow>
                      (let package = package_of_request (fresh_id (map pk_id (packages d)))
                                       (cp_id creatorProfile) req
                       in \<lparr>response = res_json
                               (JObj [(''success'', JBool True),
                                      (''message'', JStr ''Package created successfully''),
                                      (''package'', package_json package)]),
                           db_after = d\<lparr>packages := packages d @ [package]\<rparr>,
                           effects = [CreatorProfile_findUnique, Package_create]\<rparr>))))"

subsection \<open>Create portfolio item\<close>

record portfolio_request =
  po_authorization :: "string option"
  po_mediaUrl :: string
  po_mediaType :: string
  po_fileName :: string
  po_fileSize :: int
  po_mimeType :: "string option"

definition portfolio_validation :: "portfolio_request \<Rightarrow> string list" where
  "portfolio_validation req =
     check (po_mediaUrl req \<noteq> []) ''Media URL is required''
     @ check (po_mediaType req \<in> set [''image'', ''video'', ''archive'', ''document''])
         ''Valid media type required''
     @ check (po_fileName req \<noteq> []) ''File name is required''
     @ check (po_fileSize req \<ge> 1) ''Valid file size required''"

definition portfolio_of_request :: "int \<Rightarrow> int \<Rightarrow> portfolio_request \<Rightarrow> portfolioItem" where
  "portfolio_of_request new_id creator req =
     \<lparr>pi_id = new_id, pi_creator_id = creator,
      pi_media_type = toUpperCase (po_mediaType req), pi_media_url = po_mediaUrl req,
      pi_title = po_fileName req, pi_description = ''Uploaded file: '' @ po_fileName req,
      pi_file_size = po_fileSize req, pi_mime_type = or_default (po_mimeType req) [],
      pi_status = ''active''\<rparr>"

definition portfolio_json :: "portfolioItem \<Rightarrow> json" where
  "portfolio_json p =
     JObj [(''id'', JNum (of_int (pi_id p))), (''creator_id'', JNum (of_int (pi_creator_id p))),
           (''media_type'', JStr (pi_media_type p)), (''media_url'', JStr (pi_media_url p)),
           (''title'', JStr (pi_title p)), (''description'', JStr (pi_description p)),
           (''file_size'', JNum (of_int (pi_file_size p))),
           (''mime_type'', JStr (pi_mime_type p)), (''status'', JStr (pi_status p))]"

definition create_portfolio ::
  "libs \<Rightarrow> process_env \<Rightarrow> world \<Rightarrow> db \<Rightarrow> portfolio_request \<Rightarrow> outcome" where
  "create_portfolio L env w d req =
     validateRequest (portfolio_validation req) d
       (authenticated L env w d (po_authorization req)
          (\<lambda>req_userId.
             case BigInt L req_userId of
               None \<Rightarrow>
                 \<lparr>response = internal_error ''Failed to create portfolio item'' (bigint_syntax_error req_userId),
                  db_after = d, effects = [Console_error ''Create portfolio error:'']\<rparr>
             | Some uid \<Rightarrow>
                 (case find (\<lambda>c. cp_user_id c = uid) (creatorProfiles d) of
                    None \<Rightarrow>
                      \<lparr>response = creator_profile_not_found, db_after = d,
                       effects = [CreatorProfile_findUnique]\<rparr>
                  | Some creatorProfile \<Rightarrow>
                      (let portfolioItem =
                             portfolio_of_request (fresh_id (map pi_id (portfolioItems d)))
                               (cp_id creatorProfile) req
                       in \<lparr>response = res_json
                               (JObj [(''success'', JBool True),
                                      (''message'', JStr ''Portfolio item created successfully''),
                                      (''portfolioItem'', portfolio_json portfolioItem)]),
                           db_after = d\<lparr>portfolioItems := portfolioItems d @ [portfolioItem]\<rparr>,
                           effects = [CreatorProfile_findUnique, PortfolioItem_create]\<rparr>))))"

subsection \<open>Submit KYC\<close>

record kyc_request =
  kr_authorization :: "string option"
  kr_documentType :: string
  kr_frontImageUrl :: string
  kr_backImageUrl :: string

definition kyc_validation :: "kyc_request \<Rightarrow> string list" where
  "kyc_validation req =
     check (kr_documentType req \<in> set [''aadhaar'', ''pan'']) ''Valid document type required''
     @ check (kr_frontImageUrl req \<noteq> []) ''Front image URL is required''
     @ check (kr_backImageUrl req \<noteq> []) ''Back image URL is required''"

definition kyc_update :: "time \<Rightarrow> kyc_request \<Rightarrow> kyc \<Rightarrow> kyc" where
  "kyc_update t req k =
     k\<lparr>kyc_document_type := toUpperCase (kr_documentType req),
       kyc_document_front_url := kr_frontImageUrl req,
       kyc_document_back_url := kr_backImageUrl req,
       kyc_status := ''pending'', kyc_submitted_at := t\<rparr>"

definition kyc_create :: "time \<Rightarrow> int \<Rightarrow> int \<Rightarrow> kyc_request \<Rightarrow> kyc" where
  "kyc_create t new_id creator req =
     \<lparr>kyc_id = new_id, kyc_creator_id = creator,
      kyc_document_type = toUpperCase (kr_documentType req),
      kyc_document_front_url = kr_frontImageUrl req,
      kyc_document_back_url = kr_backImageUrl req,
      kyc_status = ''pending'', kyc_submitted_at = t\<rparr>"

text \<open>\<^verbatim>\<open>prisma.kYC.upsert({ where: { creator_id }, update, create })\<close>.\<close>

definition kyc_upsert :: "time \<Rightarrow> int \<Rightarrow> kyc_request \<Rightarrow> kyc list \<Rightarrow> kyc \<times> kyc list" where
  "kyc_upsert t creator req rows =
     (case update_unique (\<lambda>k. kyc_creator_id k = creator) (kyc_update t req) rows of
        Some (k, rows') \<Rightarrow> (k, rows')
      | None \<Rightarrow>
          (let k = kyc_create t (fresh_id (map kyc_id rows)) creator req in (k, rows @ [k])))"

text \<open>The stored row as the answer carries it; the date is rendered by its milliseconds.\<close>

definition kyc_json :: "kyc \<Rightarrow> json" where
  "kyc_json k =
     JObj [(''id'', JNum (of_int (kyc_id k))), (''creator_id'', JNum (of_int (kyc_creator_id k))),
           (''document_type'', JStr (kyc_document_type k)),
           (''document_front_url'', JStr (kyc_document_front_url k)),
           (''document_back_url'', JStr (kyc_document_back_url k)),
           (''status'', JStr (kyc_status k)),
           (''submitted_at'', JNum (of_int (kyc_submitted_at k)))]"

definition submit_kyc ::
  "libs \<Rightarrow> process_env \<Rightarrow> world \<Rightarrow> db \<Rightarrow> kyc_request \<Rightarrow> outcome" where
  "submit_kyc L env w d req =
     validateRequest (kyc_validation req) d
       (authenticated L env w d (kr_authorization req)
          (\<lambda>req_userId.
             case BigInt L req_userId of
               None \<Rightarrow>
                 \<lparr>response = internal_error ''Failed to submit KYC'' (bigint_syntax_error req_userId),
                  db_after = d, effects = [Console_error ''Submit KYC error:'']\<rparr>
             | Some uid \<Rightarrow>
                 (case find (\<lambda>c. cp_user_id c = uid) (creatorProfiles d) of
                    None \<Rightarrow>
                      \<lparr>response = creator_profile_not_found, db_after = d,
                       effects = [CreatorProfile_findUnique]\<rparr>
                  | Some creatorProfile \<Rightarrow>
                      (let (k, rows') = kyc_upsert (now w) (cp_id creatorProfile) req (kycs d)
                       in \<lparr>response = res_json
                               (JObj [(''success'', JBool True),
                                      (''message'', JStr ''KYC submitted successfully''),
                                      (''kyc'', kyc_json k)]),
                           db_after = d\<lparr>kycs := rows'\<rparr>,
                           effects = [CreatorProfile_findUnique, KYC_upsert]\<rparr>))))"

section \<open>Concrete collaborators and inputs\<close>

text \<open>
  Stand-ins for the libraries, used where a statement is evaluated at a concrete request:
  a phone is a plus sign and digits, a token is the secret, a dot and the user id,
  \<^verbatim>\<open>BigInt\<close> reads decimal digits, and the arithmetic is exact, which is the double
  arithmetic wherever the exact result is a double.
\<close>

definition plain_isMobilePhone :: "string \<Rightarrow> bool" where
  "plain_isMobilePhone s = (case s of [] \<Rightarrow> False | c # cs \<Rightarrow> c = CHR ''+'' \<and> cs \<noteq> [] \<and> list_all is_digit cs)"

definition plain_sign :: "jwt_payload \<Rightarrow> string \<Rightarrow> string" where
  "plain_sign p secret = secret @ ''.'' @ userId p"

definition plain_verify :: "string \<Rightarrow> string \<Rightarrow> time \<Rightarrow> js_error + jwt_payload" where
  "plain_verify token secret t =
     (if take (length secret + 1) token = secret @ ''.''
      then Inr \<lparr>userId = drop (length secret + 1) token, iat = 0\<rparr>
      else Inl (Error ''invalid signature'' None))"

definition plain_BigInt :: "string \<Rightarrow> int option" where
  "plain_BigInt s = (if s \<noteq> [] \<and> list_all is_digit s then Some (int (decimal_value s)) else None)"

definition plain_libs :: libs where
  "plain_libs = \<lparr>isMobilePhone = plain_isMobilePhone, jwt_sign = plain_sign,
                  jwt_verify = plain_verify, BigInt = plain_BigInt,
                  number_times = (\<lambda>x y. x * y), number_plus = (\<lambda>x y. x + y)\<rparr>"

text \<open>
  A random number at which the double sum is rounded: the product with 900000 is the double
  8444249301318750 / 2^48, just below 30, and its sum with 100000 is not a double; the
  double nearest to it is 100030.
\<close>

definition boundary_random :: real where
  "boundary_random = 150119987579 / 2 ^ 52"

definition rounding_libs :: libs where
  "rounding_libs =
     plain_libs\<lparr>number_plus :=
       (\<lambda>x y. if x = 100000 \<and> y = 8444249301318750 / 2 ^ 48 then 100030 else x + y)\<rparr>"

text \<open>A token library whose \<^verbatim>\<open>jwt.verify\<close> throws the given error on every token.\<close>

definition rejecting_libs :: "js_error \<Rightarrow> libs" where
  "rejecting_libs e = plain_libs\<lparr>jwt_verify := (\<lambda>token secret t. Inl e)\<rparr>"

definition env_unconfigured :: process_env where
  "env_unconfigured = \<lparr>TWILIO_ACCOUNT_SID = None, TWILIO_AUTH_TOKEN = None,
                        TWILIO_VERIFY_SERVICE_SID = None, JWT_SECRET = None\<rparr>"

definition env_configured :: process_env where
  "env_configured = \<lparr>TWILIO_ACCOUNT_SID = Some ''AC0'', TWILIO_AUTH_TOKEN = Some ''secret'',
                      TWILIO_VERIFY_SERVICE_SID = Some ''VA0'', JWT_SECRET = None\<rparr>"

text \<open>
  A run at time \<open>t\<close> whose random number is one half (the code 550000), with a provider
  that would send and approve.
\<close>

definition world_at :: "time \<Rightarrow> world" where
  "world_at t = \<lparr>now = t, math_random = 1 / 2, random_bytes_hex = ''c0ffee'',
                  twilio_verifications_create = Inr (),
                  twilio_verification_checks_create = Inr ''approved''\<rparr>"

definition empty_db :: db where
  "empty_db = \<lparr>phoneVerifications = [], users = [], creatorProfiles = [], packages = [],
               portfolioItems = [], kycs = []\<rparr>"

definition the_phone :: string where
  "the_phone = ''+14155552671''"

definition code_row :: "int \<Rightarrow> time \<Rightarrow> phoneVerification" where
  "code_row i t = \<lparr>pv_id = i, pv_phone = the_phone, pv_code = ''550000'', pv_token = ''c0ffee'',
                    pv_created_at = t, pv_expires_at = t + 600000, pv_verified_at = None\<rparr>"

text \<open>The store after one request for a code at time 0, and after a second one at 61 seconds.\<close>

definition db_one_code :: db where
  "db_one_code = empty_db\<lparr>phoneVerifications := [code_row 1 0]\<rparr>"

definition db_two_codes :: db where
  "db_two_codes = empty_db\<lparr>phoneVerifications := [code_row 1 0, code_row 2 61000]\<rparr>"

definition the_verify_request :: verify_request where
  "the_verify_request = \<lparr>vr_phone = the_phone, vr_code = ''550000'', vr_fullName = Some ''Asha''\<rparr>"

text \<open>A user with the id 7 and no creator profile, and the token that names this user.\<close>

definition phone_user :: user where
  "phone_user = \<lparr>u_id = 7, u_email = None, u_phone = Some the_phone, u_name = Some ''Asha'',
                  u_profile_image_url = None, u_auth_provider = None, u_email_verified = False,
                  u_phone_verified = True, u_user_type = ''creator'', u_status = ''active'',
                  u_last_login_at = None\<rparr>"

definition db_user_only :: db where
  "db_user_only = empty_db\<lparr>users := [phone_user]\<rparr>"

text \<open>The same user beside a user with another phone, and a stored code.\<close>

definition other_user :: user where
  "other_user = \<lparr>u_id = 3, u_email = Some ''lee@example.org'', u_phone = Some ''+14155550000'',
                  u_name = Some ''Lee'', u_profile_image_url = None, u_auth_provider = Some ''google'',
                  u_email_verified = True, u_phone_verified = False, u_user_type = ''creator'',
                  u_status = ''active'', u_last_login_at = None\<rparr>"

definition db_two_users :: db where
  "db_two_users = empty_db\<lparr>phoneVerifications := [code_row 1 0], users := [other_user, phone_user]\<rparr>"

definition user_token :: "string option" where
  "user_token = Some ''Bearer your-secret-key.7''"

definition the_package_request :: package_request where
  "the_package_request = \<lparr>pr_authorization = user_token, pr_platform = ''instagram'',
      pr_contentType = ''reel'', pr_quantity = 3, pr_revisions = 1, pr_duration1 = ''2'',
      pr_duration2 = ''days'', pr_price = 499, pr_description = None\<rparr>"

definition the_portfolio_request :: portfolio_request where
  "the_portfolio_request = \<lparr>po_authorization = user_token, po_mediaUrl = ''https://cdn/a.png'',
      po_mediaType = ''image'', po_fileName = ''a.png'', po_fileSize = 1024,
      po_mimeType = Some ''image/png''\<rparr>"

definition the_kyc_request :: kyc_request where
  "the_kyc_request = \<lparr>kr_authorization = user_token, kr_documentType = ''pan'',
      kr_frontImageUrl = ''https://cdn/f.png'', kr_backImageUrl = ''https://cdn/b.png''\<rparr>"

definition the_update_name_request :: update_name_request where
  "the_update_name_request = \<lparr>un_authorization = Some ''Bearer not-a-token'', un_name = ''Asha''\<rparr>"

section \<open>Decimal rendering\<close>

lemma digit_is_digit: "d < 10 \<Longrightarrow> is_digit (digit d)"
  unfolding is_digit_def digit_def by (rule nth_mem) simp

lemma digit_value_digit: "d < 10 \<Longrightarrow> digit_value (digit d) = d"
proof -
  assume "d < 10"
  then have "d \<in> {0, 1, 2, 3, 4, 5, 6, 7, 8, 9}" by auto
  then show ?thesis
    by (auto simp: digit_value_def digit_def)
qed

lemma toString_nat_digits: "list_all is_digit (toString_nat n)"
proof (induction n rule: toString_nat.induct)
  case (1 n)
  show ?case
  proof (cases "n < 10")
    case True
    then show ?thesis by (simp add: toString_nat.simps [of n] digit_is_digit)
  next
    case False
    with 1 show ?thesis by (simp add: toString_nat.simps [of n] digit_is_digit)
  qed
qed

lemma decimal_value_snoc: "decimal_value (s @ [c]) = 10 * decimal_value s + digit_value c"
  by (simp add: decimal_value_def)

lemma decimal_value_toString_nat: "decimal_value (toString_nat n) = n"
proof (induction n rule: toString_nat.induct)
  case (1 n)
  show ?case
  proof (cases "n < 10")
    case True
    then show ?thesis
      by (simp add: toString_nat.simps [of n] decimal_value_def digit_value_digit)
  next
    case False
    with 1 show ?thesis
      by (simp add: toString_nat.simps [of n] decimal_value_snoc digit_value_digit)
  qed
qed

lemma length_toString_nat_step:
  "10 \<le> n \<Longrightarrow> length (toString_nat n) = Suc (length (toString_nat (n div 10)))"
  by (simp add: toString_nat.simps [of n])

lemma length_toString_nat_small: "n < 10 \<Longrightarrow> length (toString_nat n) = 1"
  by (simp add: toString_nat.simps [of n])

lemma length_toString_nat_pow:
  "10 ^ k \<le> n \<Longrightarrow> n < 10 ^ Suc k \<Longrightarrow> length (toString_nat n) = Suc k"
proof (induction k arbitrary: n)
  case 0
  then show ?case by (simp add: length_toString_nat_small)
next
  case (Suc k)
  have ten: "10 \<le> n"
  proof -
    from Suc.prems(1) have "10 * 10 ^ k \<le> n" by simp
    moreover have "(10::nat) * 1 \<le> 10 * 10 ^ k" by (intro mult_le_mono2) simp
    ultimately show ?thesis by linarith
  qed
  have lo: "10 ^ k \<le> n div 10" using Suc.prems(1) by simp
  have hi: "n div 10 < 10 ^ Suc k" using Suc.prems(2) by simp
  show ?case using Suc.IH [OF lo hi] ten by (simp add: length_toString_nat_step)
qed

lemma length_toString_nat_six:
  assumes "100000 \<le> n" "n \<le> 999999"
  shows "length (toString_nat n) = 6"
  using length_toString_nat_pow [of 5 n] assms by simp

lemma generate_otp_half: "generate_otp plain_libs (1 / 2) = ''550000''"
  by (simp add: generate_otp_def plain_libs_def toString_def toString_nat.simps digit_def)

section \<open>Double arithmetic\<close>

lemma is_double_of_int: "\<bar>m\<bar> < 2 ^ 53 \<Longrightarrow> is_double (real_of_int m)"
  using scaled_up [of m 0] by simp

lemma quotient_less:
  assumes "\<bar>m\<bar> < 2 ^ 53" "c \<le> b"
  shows "real_of_int m / 2 ^ b < 2 ^ 53 / 2 ^ c"
proof (cases "0 \<le> m")
  case True
  have "real_of_int m < 2 ^ 53" using assms(1)
    by (metis abs_less_iff of_int_less_numeral_power_cancel_iff)
  moreover have "(2::real) ^ c \<le> 2 ^ b" using assms(2) by (intro power_increasing) simp_all
  ultimately show ?thesis by (intro frac_less) (use True in simp_all)
next
  case False
  then have "real_of_int m / 2 ^ b < 0" by (simp add: divide_neg_pos)
  also have "(0::real) < 2 ^ 53 / 2 ^ c" by simp
  finally show ?thesis .
qed

text \<open>Doubles of magnitude at least 2^k lie on the grid of step 2^k / 2^52.\<close>

lemma double_grid:
  assumes "is_double z" "2 ^ k \<le> z" "k \<le> 52"
  shows "\<exists>n::int. z * 2 ^ (52 - k) = real_of_int n"
  using assms(1)
proof cases
  case (scaled_up m a)
  have "z * 2 ^ (52 - k) = real_of_int (m * 2 ^ a * 2 ^ (52 - k))"
    by (simp add: scaled_up(1))
  then show ?thesis by blast
next
  case (scaled_down m b)
  show ?thesis
  proof (cases "b \<le> 52 - k")
    case True
    then have "(2::real) ^ (52 - k) = 2 ^ b * 2 ^ (52 - k - b)"
      by (simp flip: power_add)
    then have "z * 2 ^ (52 - k) = real_of_int (m * 2 ^ (52 - k - b))"
      by (simp add: scaled_down(1))
    then show ?thesis by blast
  next
    case False
    then have b: "53 - k \<le> b" using assms(3) by simp
    have "real_of_int m / 2 ^ b < 2 ^ 53 / 2 ^ (53 - k)"
      by (rule quotient_less [OF scaled_down(2) b])
    also have "(2::real) ^ 53 / 2 ^ (53 - k) = 2 ^ k"
      using assms(3) by (simp add: power_diff)
    finally show ?thesis using assms(2) scaled_down(1) by simp
  qed
qed


lemma double_below_one:
  assumes "is_double r" "r < 1"
  shows "r \<le> 1 - 1 / 2 ^ 53"
proof (cases "r < 1 / 2")
  case True
  then show ?thesis by simp
next
  case half: False
  from assms(1) show ?thesis
  proof cases
    case (scaled_up m a)
    have "r = real_of_int (m * 2 ^ a)" by (simp add: scaled_up(1))
    with assms(2) have "m * 2 ^ a < 1" by linarith
    then have "m * 2 ^ a \<le> 0" by simp
    then have "real_of_int (m * 2 ^ a) \<le> 0" by linarith
    then show ?thesis using half scaled_up(1) by simp
  next
    case (scaled_down m b)
    show ?thesis
    proof (cases "b \<le> 53")
      case True
      then have pw: "(2::real) ^ b * 2 ^ (53 - b) = 2 ^ 53"
        by (simp flip: power_add)
      have "r * (2 ^ b * 2 ^ (53 - b)) = real_of_int (m * 2 ^ (53 - b))"
        by (simp add: scaled_down(1))
      then have eq: "r * 2 ^ 53 = real_of_int (m * 2 ^ (53 - b))"
        by (simp only: pw)
      define n where "n = m * 2 ^ (53 - b)"
      have "r * 2 ^ 53 < 9007199254740992" using assms(2) by simp
      with eq have "real_of_int n < 9007199254740992" by (simp add: n_def)
      then have "n \<le> 9007199254740991" by linarith
      then have "real_of_int n \<le> 9007199254740991" by linarith
      with eq have "r * 2 ^ 53 \<le> 9007199254740991" by (simp add: n_def)
      then show ?thesis by (simp add: field_simps)
    next
      case False
      then have b: "54 \<le> b" by simp
      have "real_of_int m / 2 ^ b < 2 ^ 53 / 2 ^ 54"
        by (rule quotient_less [OF scaled_down(2) b])
      then show ?thesis using half scaled_down(1) by simp
    qed
  qed
qed

lemma double_near:
  assumes "0 \<le> x" "x \<le> 1000000"
  shows "\<exists>d. is_double d \<and> \<bar>d - x\<bar> \<le> 1 / 2 ^ 34"
proof -
  define y where "y = x * 2 ^ 33"
  define m where "m = round y"
  have err: "\<bar>real_of_int m - y\<bar> \<le> 1 / 2" unfolding m_def by (rule of_int_round_abs_le)
  have y: "0 \<le> y" "y \<le> 8589934592000000" using assms by (simp_all add: y_def)
  with err have "real_of_int m < 9007199254740992" "- 9007199254740992 < real_of_int m"
    by linarith+
  then have "m < 9007199254740992" "- 9007199254740992 < m" by linarith+
  then have "\<bar>m\<bar> < 2 ^ 53" by simp
  then have d: "is_double (real_of_int m / 2 ^ 33)" by (rule scaled_down) simp
  have eq: "real_of_int m / 2 ^ 33 - x = (real_of_int m - y) / 2 ^ 33"
    by (simp add: y_def field_simps)
  from err have "- (1 / 2) \<le> real_of_int m - y" "real_of_int m - y \<le> 1 / 2" by linarith+
  then have "- (1 / 2 ^ 34) \<le> (real_of_int m - y) / 2 ^ 33"
    "(real_of_int m - y) / 2 ^ 33 \<le> 1 / 2 ^ 34"
    by (simp_all add: field_simps)
  with eq have "\<bar>real_of_int m / 2 ^ 33 - x\<bar> \<le> 1 / 2 ^ 34" by linarith
  with d show ?thesis by blast
qed

lemma nearest_error:
  assumes "nearest_double x d" "0 \<le> x" "x \<le> 1000000"
  shows "\<bar>d - x\<bar> \<le> 1 / 2 ^ 34"
proof -
  from double_near [OF assms(2,3)] obtain z where "is_double z" "\<bar>z - x\<bar> \<le> 1 / 2 ^ 34" by blast
  with assms(1) show ?thesis unfolding nearest_double_def by force
qed

lemma nearest_le:
  assumes "nearest_double x d" "is_double u" "x \<le> u"
  shows "d \<le> u"
proof -
  from assms(1,2) have "\<bar>d - x\<bar> \<le> \<bar>u - x\<bar>" by (simp add: nearest_double_def)
  with assms(3) show ?thesis by linarith
qed

lemma nearest_ge:
  assumes "nearest_double x d" "is_double l" "l \<le> x"
  shows "l \<le> d"
proof -
  from assms(1,2) have "\<bar>d - x\<bar> \<le> \<bar>l - x\<bar>" by (simp add: nearest_double_def)
  with assms(3) show ?thesis by linarith
qed

lemma is_double_0: "is_double 0"
  using is_double_of_int [of 0] by simp

lemma is_double_100000: "is_double 100000"
  using is_double_of_int [of 100000] by simp

lemma is_double_below_900000: "is_double (900000 - 1 / 2 ^ 33)"
proof -
  have "is_double (real_of_int (900000 * 2 ^ 33 - 1) / 2 ^ 33)"
    by (rule scaled_down) simp_all
  then show ?thesis by (simp add: field_simps)
qed

lemma is_double_below_1000000: "is_double (1000000 - 1 / 2 ^ 33)"
proof -
  have "is_double (real_of_int (1000000 * 2 ^ 33 - 1) / 2 ^ 33)"
    by (rule scaled_down) simp_all
  then show ?thesis by (simp add: field_simps)
qed

text \<open>The product: at most the last double below 900000.\<close>

lemma product_bound:
  assumes r: "is_double r" "0 \<le> r" "r < 1"
    and p: "nearest_double (r * 900000) p"
  shows "0 \<le> p" "p \<le> 900000 - 1 / 2 ^ 33"
proof -
  let ?x = "r * 900000"
  let ?d1 = "900000 - 1 / 2 ^ 33 :: real"
  have x0: "0 \<le> ?x" using r(2) by simp
  show "0 \<le> p" by (rule nearest_ge [OF p is_double_0 x0])
  have "r \<le> 1 - 1 / 2 ^ 53" by (rule double_below_one [OF r(1,3)])
  then have xhi: "?x \<le> 900000 - 900000 / 2 ^ 53" by simp
  show "p \<le> ?d1"
  proof (cases "?x \<le> ?d1")
    case True
    then show ?thesis by (rule nearest_le [OF p is_double_below_900000])
  next
    case False
    from p is_double_below_900000 have near: "\<bar>p - ?x\<bar> \<le> \<bar>?d1 - ?x\<bar>"
      by (simp add: nearest_double_def)
    with False have lo: "?d1 \<le> p" and "p \<le> 2 * ?x - ?d1" by linarith+
    with xhi have hi: "p < 900000" by simp
    have pd: "is_double p" using p by (simp add: nearest_double_def)
    have "(2::real) ^ 19 \<le> p" using lo by simp
    from double_grid [OF pd this] obtain n :: int where n: "p * 2 ^ 33 = real_of_int n" by auto
    have "?d1 * 2 ^ 33 \<le> p * 2 ^ 33" using lo by (intro mult_right_mono) simp_all
    then have "real_of_int (900000 * 2 ^ 33 - 1) \<le> real_of_int n" using n by (simp add: field_simps)
    then have n1: "900000 * 2 ^ 33 - 1 \<le> n" by linarith
    have "p * 2 ^ 33 < 900000 * 2 ^ 33" using hi by simp
    then have "real_of_int n < real_of_int (900000 * 2 ^ 33)" using n by simp
    then have "n < 900000 * 2 ^ 33" by linarith
    with n1 have "n = 900000 * 2 ^ 33 - 1" by simp
    with n have "p * 2 ^ 33 = 900000 * 2 ^ 33 - 1" by simp
    then show ?thesis by (simp add: field_simps)
  qed
qed

lemma sum_bound:
  assumes r: "is_double r" "0 \<le> r" "r < 1"
    and p: "nearest_double (r * 900000) p"
    and s: "nearest_double (100000 + p) s"
  shows "100000 \<le> \<lfloor>s\<rfloor>" "\<lfloor>s\<rfloor> \<le> 999999"
    "real_of_int \<lfloor>s\<rfloor> - 1 / 2 ^ 33 \<le> 100000 + r * 900000"
    "100000 + r * 900000 < real_of_int \<lfloor>s\<rfloor> + 1 + 1 / 2 ^ 33"
proof -
  note pb = product_bound [OF r p]
  have "100000 \<le> s" by (rule nearest_ge [OF s is_double_100000]) (use pb in simp)
  then show "100000 \<le> \<lfloor>s\<rfloor>" by (simp add: le_floor_iff)
  have "s \<le> 1000000 - 1 / 2 ^ 33"
    by (rule nearest_le [OF s is_double_below_1000000]) (use pb in simp)
  then have "s < 1000000" by simp
  then have "\<lfloor>s\<rfloor> < 1000000" by (simp add: floor_less_iff)
  then show "\<lfloor>s\<rfloor> \<le> 999999" by simp
  have "r * 900000 \<le> 900000" using r(3) by simp
  with r(2) have ep: "\<bar>p - r * 900000\<bar> \<le> 1 / 2 ^ 34"
    by (intro nearest_error [OF p]) simp_all
  have es: "\<bar>s - (100000 + p)\<bar> \<le> 1 / 2 ^ 34"
    by (intro nearest_error [OF s]) (use pb in simp_all)
  have two: "(1::real) / 2 ^ 34 + 1 / 2 ^ 34 = 1 / 2 ^ 33" by simp
  have fl: "real_of_int \<lfloor>s\<rfloor> \<le> s" "s < real_of_int \<lfloor>s\<rfloor> + 1" by linarith+
  from ep es two fl show "real_of_int \<lfloor>s\<rfloor> - 1 / 2 ^ 33 \<le> 100000 + r * 900000" by linarith
  from ep es two fl show "100000 + r * 900000 < real_of_int \<lfloor>s\<rfloor> + 1 + 1 / 2 ^ 33" by linarith
qed

lemma nearest_exact: "is_double x \<Longrightarrow> nearest_double x x"
  by (simp add: nearest_double_def)

lemma boundary_product_double: "is_double (8444249301318750 / 2 ^ 48)"
  using scaled_down [of 8444249301318750 48] by simp

lemma boundary_sum_nearest: "nearest_double (100000 + 8444249301318750 / 2 ^ 48) 100030"
  unfolding nearest_double_def
proof (intro conjI allI impI)
  show "is_double 100030" using is_double_of_int [of 100030] by simp
next
  fix z :: real
  assume z: "is_double z"
  define y :: real where "y = 100000 + 8444249301318750 / 2 ^ 48"
  have gap: "100030 - y = 930 / 2 ^ 48" by (simp add: y_def)
  have "\<bar>100030 - y\<bar> \<le> \<bar>z - y\<bar>"
  proof (cases "100030 \<le> z")
    case True
    with gap show ?thesis by simp
  next
    case below: False
    show ?thesis
    proof (cases "2 ^ 16 \<le> z")
      case True
      from double_grid [OF z True] obtain n :: int where n: "z * 2 ^ 36 = real_of_int n" by auto
      have "z * 2 ^ 36 < 100030 * 2 ^ 36" using below by simp
      with n have "real_of_int n < 6874009257902080" by simp
      then have "n \<le> 6874009257902079" by linarith
      then have "real_of_int n \<le> 6874009257902079" by linarith
      with n have "z * 2 ^ 36 \<le> 6874009257902079" by simp
      then have "z \<le> 100030 - 1 / 2 ^ 36" by (simp add: field_simps)
      with gap show ?thesis by simp
    next
      case False
      then have "z < 65536" by simp
      with gap show ?thesis by simp
    qed
  qed
  then show "\<bar>100030 - (100000 + 8444249301318750 / 2 ^ 48)\<bar>
      \<le> \<bar>z - (100000 + 8444249301318750 / 2 ^ 48)\<bar>"
    by (simp only: y_def)
qed

section \<open>Queries\<close>

lemma findFirst_id_None: "findFirst wh id rows = None \<longleftrightarrow> (\<forall>r \<in> set rows. \<not> wh r)"
proof -
  have "findFirst wh id rows = None \<longleftrightarrow> filter wh rows = []"
    by (simp add: findFirst_def split: list.splits)
  then show ?thesis by (simp add: filter_empty_conv)
qed

lemma findFirst_desc_None:
  "findFirst wh created_at_desc rows = None \<longleftrightarrow> (\<forall>r \<in> set rows. \<not> wh r)"
proof -
  have "created_at_desc (filter wh rows) = [] \<longleftrightarrow> filter wh rows = []"
    by (metis created_at_desc_def set_sort set_empty)
  then show ?thesis
    by (auto simp: findFirst_def filter_empty_conv split: list.splits)
qed

lemma findFirst_desc_Some:
  assumes "findFirst wh created_at_desc rows = Some r"
  shows "r \<in> set rows \<and> wh r"
proof -
  from assms obtain rs where "created_at_desc (filter wh rows) = r # rs"
    by (auto simp: findFirst_def split: list.splits)
  then have "r \<in> set (created_at_desc (filter wh rows))" by simp
  then show ?thesis by (simp add: created_at_desc_def)
qed

section \<open>The send handler, branch by branch\<close>

lemma send_invalid:
  "\<not> isMobilePhone L (sr_phone req) \<Longrightarrow>
   send_phone_verification_code L env w d req =
     \<lparr>response = validation_failed [''Valid phone number is required''], db_after = d, effects = []\<rparr>"
  by (simp add: send_phone_verification_code_def validateRequest_def check_def)

lemma send_rejected:
  assumes "isMobilePhone L (sr_phone req)"
    and "\<exists>r \<in> set (phoneVerifications d). recent_where (sr_phone req) (now w) r"
  shows "send_phone_verification_code L env w d req =
     \<lparr>response = res_status_json 429
         (JObj [(''error'', JStr ''Please wait 1 minute before requesting another code'')]),
      db_after = d, effects = [PhoneVerification_findFirst]\<rparr>"
proof -
  from assms(2) have "findFirst (recent_where (sr_phone req) (now w)) id (phoneVerifications d) \<noteq> None"
    by (simp add: findFirst_id_None)
  with assms(1) show ?thesis
    by (simp add: send_phone_verification_code_def validateRequest_def check_def Let_def)
qed

lemma send_accepted:
  assumes "isMobilePhone L (sr_phone req)"
    and "\<forall>r \<in> set (phoneVerifications d). \<not> recent_where (sr_phone req) (now w) r"
  shows "send_phone_verification_code L env w d req =
     \<lparr>response = res_json
         (JObj [(''success'', JBool True),
                (''message'', JStr ''Verification code sent successfully''),
                (''phone'', JStr (sr_phone req))]),
      db_after = d\<lparr>phoneVerifications :=
                     phoneVerification_create (now w) (sr_phone req) (generate_otp L (math_random w))
                       (random_bytes_hex w) (now w + 10 * 60 * 1000) (phoneVerifications d)\<rparr>,
      effects = [PhoneVerification_findFirst, Math_random, Crypto_randomBytes,
                 PhoneVerification_create]
                @ snd (dispatch_sms env w (sr_phone req) (generate_otp L (math_random w)))\<rparr>"
proof -
  from assms(2) have "findFirst (recent_where (sr_phone req) (now w)) id (phoneVerifications d) = None"
    by (simp add: findFirst_id_None)
  with assms(1) show ?thesis
    by (simp add: send_phone_verification_code_def validateRequest_def check_def Let_def
        split: prod.splits)
qed

lemma send_status_cases:
  "status (response (send_phone_verification_code L env w d req)) =
     (if \<not> isMobilePhone L (sr_phone req) then 400
      else if \<exists>r \<in> set (phoneVerifications d). recent_where (sr_phone req) (now w) r then 429
      else 200)"
  using send_invalid [of L req env w d] send_rejected [of L req d w env]
    send_accepted [of L req d w env]
  by (auto simp: validation_failed_def res_status_json_def res_json_def)

section \<open>The verify handler, branch by branch\<close>

lemma update_where_distinct:
  assumes "distinct (map key rows)" "r \<in> set rows"
  shows "update_where (\<lambda>x. key x = key r) f rows = map (\<lambda>x. if x = r then f x else x) rows"
  using assms
proof (induction rows)
  case Nil
  then show ?case by simp
next
  case (Cons a rows)
  show ?case
  proof (cases "key a = key r")
    case True
    with Cons.prems have ar: "a = r" by (auto simp: image_iff)
    with Cons.prems have "r \<notin> set rows" by auto
    then have "map (\<lambda>x. if x = r then f x else x) rows = rows"
      by (induction rows) auto
    with ar show ?thesis by simp
  next
    case False
    with Cons show ?thesis by auto
  qed
qed

lemma update_where_find:
  "find wh rows = Some r \<Longrightarrow> f r \<in> set (update_where wh f rows)"
  by (induction rows) (auto split: if_splits)

lemma find_Some_mem: "find wh rows = Some r \<Longrightarrow> r \<in> set rows \<and> wh r"
  by (induction rows) (auto split: if_splits)

lemma find_or_create_user_Inr:
  "\<exists>user d2 log. find_or_create_user w phone fullName d = Inr (user, d2, log)
      \<and> user \<in> set (users d2) \<and> u_phone_verified user
      \<and> phoneVerifications d2 = phoneVerifications d
      \<and> (log = [User_findUnique, User_create] \<or> log = [User_findUnique, User_update])"
proof (cases "find (\<lambda>u. u_phone u = Some phone) (users d)")
  case None
  then show ?thesis
    by (simp add: find_or_create_user_def Let_def user_create_phone_def)
next
  case (Some found)
  then have mem: "found \<in> set (users d)" by (simp add: find_Some_mem)
  then obtain r0 where r0: "find (\<lambda>u. u_id u = u_id found) (users d) = Some r0"
    by (cases "find (\<lambda>u. u_id u = u_id found) (users d)") (auto simp: find_None_iff)
  from update_where_find [OF r0, of "user_login_update (now w) fullName"]
  have "user_login_update (now w) fullName r0
          \<in> set (update_where (\<lambda>u. u_id u = u_id found) (user_login_update (now w) fullName) (users d))" .
  moreover have "u_phone_verified (user_login_update (now w) fullName r0)"
    by (simp add: user_login_update_def Let_def)
  ultimately show ?thesis using Some r0
    by (simp add: find_or_create_user_def update_unique_def)
qed

lemma find_by_key:
  assumes "distinct (map key rows)" "r \<in> set rows"
  shows "find (\<lambda>x. key x = key r) rows = Some r"
  using assms by (induction rows) (auto simp: image_iff)

lemma find_or_create_user_new:
  assumes "find (\<lambda>u. u_phone u = Some phone) (users d) = None"
  shows "find_or_create_user w phone fullName d =
     Inr (user_create_phone phone fullName (users d),
          d\<lparr>users := users d @ [user_create_phone phone fullName (users d)]\<rparr>,
          [User_findUnique, User_create])"
  using assms by (simp add: find_or_create_user_def Let_def)

lemma find_or_create_user_found:
  assumes "find (\<lambda>u. u_phone u = Some phone) (users d) = Some found"
    and "distinct (map u_id (users d))"
  shows "find_or_create_user w phone fullName d =
     Inr (user_login_update (now w) fullName found,
          d\<lparr>users := map (\<lambda>u. if u = found then user_login_update (now w) fullName u else u)
                        (users d)\<rparr>,
          [User_findUnique, User_update])"
proof -
  from assms(1) have mem: "found \<in> set (users d)" by (simp add: find_Some_mem)
  note key = find_by_key [OF assms(2) mem]
  note upd = update_where_distinct [OF assms(2) mem, of "user_login_update (now w) fullName"]
  show ?thesis
    by (simp add: find_or_create_user_def assms(1) update_unique_def key upd)
qed

lemma verify_valid:
  assumes "isMobilePhone L (vr_phone req)" "length (vr_code req) = 6"
  shows "verify_phone_code L env w d req =
     (case twilio_check env w (vr_phone req) (vr_code req) of
        (Some denied, _, log1) \<Rightarrow> \<lparr>response = denied, db_after = d, effects = log1\<rparr>
      | (None, twilioVerification, log1) \<Rightarrow>
          (case (if \<not> twilioVerification
                 then database_verification w (vr_phone req) (vr_code req) d
                 else Inr (d, [])) of
             Inl (r, d1, log2) \<Rightarrow> \<lparr>response = r, db_after = d1, effects = log1 @ log2\<rparr>
           | Inr (d1, log2) \<Rightarrow>
               (case find_or_create_user w (vr_phone req) (vr_fullName req) d1 of
                  Inl e \<Rightarrow>
                    \<lparr>response = verify_catch e, db_after = d1,
                     effects = log1 @ log2 @ [User_findUnique, User_update,
                                              Console_error ''Verify OTP error:'']\<rparr>
                | Inr (user, d2, log3) \<Rightarrow>
                    \<lparr>response = verify_success user (generateToken L env w (u_id user)),
                     db_after = d2,
                     effects = log1 @ log2 @ log3 @ [Jwt_sign]\<rparr>)))"
  using assms by (simp add: verify_phone_code_def validateRequest_def check_def Let_def)

lemma twilio_check_unconfigured:
  "\<not> twilio_configured env \<Longrightarrow> twilio_check env w phone code = (None, False, [])"
  by (simp add: twilio_check_def)

lemma database_verification_none:
  assumes "\<forall>r \<in> set (phoneVerifications d). \<not> verification_where phone code (now w) r"
  shows "database_verification w phone code d = Inl (invalid_or_expired, d, [PhoneVerification_findFirst])"
proof -
  from assms have "findFirst (verification_where phone code (now w)) created_at_desc
      (phoneVerifications d) = None"
    by (simp add: findFirst_desc_None)
  then show ?thesis by (simp add: database_verification_def)
qed

lemma database_verification_some:
  assumes "r \<in> set (phoneVerifications d)" "verification_where phone code (now w) r"
  shows "\<exists>v \<in> set (phoneVerifications d). verification_where phone code (now w) v \<and>
     database_verification w phone code d =
       Inr (d\<lparr>phoneVerifications :=
               update_where (\<lambda>x. pv_id x = pv_id v) (\<lambda>x. x\<lparr>pv_verified_at := Some (now w)\<rparr>)
                 (phoneVerifications d)\<rparr>,
            [PhoneVerification_findFirst, PhoneVerification_update (pv_id v)])"
proof -
  from assms obtain v where v: "findFirst (verification_where phone code (now w)) created_at_desc
      (phoneVerifications d) = Some v"
    by (cases "findFirst (verification_where phone code (now w)) created_at_desc
      (phoneVerifications d)") (auto simp: findFirst_desc_None)
  then have vm: "v \<in> set (phoneVerifications d)" "verification_where phone code (now w) v"
    by (simp_all add: findFirst_desc_Some)
  then have "find (\<lambda>x. pv_id x = pv_id v) (phoneVerifications d) \<noteq> None"
    by (auto simp: find_None_iff)
  with v vm show ?thesis
    by (auto simp: database_verification_def update_unique_def)
qed

lemma twilio_check_error:
  "twilio_configured env \<Longrightarrow> twilio_verification_checks_create w = Inl e \<Longrightarrow>
   \<exists>log. twilio_check env w phone code = (None, False, log)"
  by (simp add: twilio_check_def)

lemma twilio_check_approved:
  "twilio_configured env \<Longrightarrow> twilio_verification_checks_create w = Inr ''approved'' \<Longrightarrow>
   twilio_check env w phone code = (None, True, [Twilio_verificationChecks_create phone code])"
  by (simp add: twilio_check_def)

lemma twilio_check_denied:
  "twilio_configured env \<Longrightarrow> twilio_verification_checks_create w = Inr st \<Longrightarrow> st \<noteq> ''approved'' \<Longrightarrow>
   twilio_check env w phone code =
     (Some (res_status_json 400 (JObj [(''error'', JStr ''Invalid verification code'')])), False,
      [Twilio_verificationChecks_create phone code])"
  by (simp add: twilio_check_def)

lemma verify_local_success:
  assumes valid: "isMobilePhone L (vr_phone req)" "length (vr_code req) = 6"
    and tw: "twilio_check env w (vr_phone req) (vr_code req) = (None, False, log1)"
    and r: "r \<in> set (phoneVerifications d)"
      "verification_where (vr_phone req) (vr_code req) (now w) r"
  shows "\<exists>v \<in> set (phoneVerifications d).
            verification_where (vr_phone req) (vr_code req) (now w) v
          \<and> status (response (verify_phone_code L env w d req)) = 200
          \<and> phoneVerifications (db_after (verify_phone_code L env w d req)) =
              update_where (\<lambda>x. pv_id x = pv_id v) (\<lambda>x. x\<lparr>pv_verified_at := Some (now w)\<rparr>)
                (phoneVerifications d)"
proof -
  from database_verification_some [OF r] obtain v where
    v: "v \<in> set (phoneVerifications d)" "verification_where (vr_phone req) (vr_code req) (now w) v"
    and dv: "database_verification w (vr_phone req) (vr_code req) d =
       Inr (d\<lparr>phoneVerifications :=
               update_where (\<lambda>x. pv_id x = pv_id v) (\<lambda>x. x\<lparr>pv_verified_at := Some (now w)\<rparr>)
                 (phoneVerifications d)\<rparr>,
            [PhoneVerification_findFirst, PhoneVerification_update (pv_id v)])"
    by blast
  let ?d1 = "d\<lparr>phoneVerifications :=
               update_where (\<lambda>x. pv_id x = pv_id v) (\<lambda>x. x\<lparr>pv_verified_at := Some (now w)\<rparr>)
                 (phoneVerifications d)\<rparr>"
  from find_or_create_user_Inr [of w "vr_phone req" "vr_fullName req" ?d1]
  obtain user d2 log where
    u: "find_or_create_user w (vr_phone req) (vr_fullName req) ?d1 = Inr (user, d2, log)"
    and d2: "phoneVerifications d2 = phoneVerifications ?d1"
    by blast
  have "status (response (verify_phone_code L env w d req)) = 200"
    and "phoneVerifications (db_after (verify_phone_code L env w d req)) = phoneVerifications ?d1"
    using d2 by (simp_all add: verify_valid [OF valid] tw dv u verify_success_def res_json_def)
  with v show ?thesis by auto
qed

section \<open>Keys, tokens and concrete runs\<close>

lemma fresh_id_greater: "i \<in> set ids \<Longrightarrow> i < fresh_id ids"
  by (induction ids) (auto simp: fresh_id_def)

text \<open>The generated key keeps the keys of the table distinct.\<close>

lemma phoneVerification_create_distinct:
  assumes "distinct (map pv_id rows)"
  shows "distinct (map pv_id (phoneVerification_create t phone code token expires rows))"
proof -
  have "fresh_id (map pv_id rows) \<notin> set (map pv_id rows)"
    using fresh_id_greater [of "fresh_id (map pv_id rows)" "map pv_id rows"] by auto
  with assms show ?thesis by (simp add: phoneVerification_create_def)
qed

lemmas fixture_defs =
  plain_libs_def plain_isMobilePhone_def plain_sign_def plain_verify_def plain_BigInt_def
  rejecting_libs_def env_unconfigured_def env_configured_def world_at_def empty_db_def
  the_phone_def code_row_def db_one_code_def db_two_codes_def the_verify_request_def
  phone_user_def db_user_only_def other_user_def db_two_users_def user_token_def
  the_package_request_def
  the_portfolio_request_def the_kyc_request_def the_update_name_request_def

lemmas handler_defs =
  verify_phone_code_def validateRequest_def check_def twilio_check_def twilio_configured_def
  truthy_def database_verification_def findFirst_def created_at_desc_def update_unique_def
  verification_where_def find_or_create_user_def user_create_phone_def user_login_update_def
  or_default_def fresh_id_def verify_success_def res_json_def res_status_json_def
  invalid_or_expired_def is_digit_def generateToken_def jwt_secret_def Let_def

lemma the_phone_valid: "isMobilePhone plain_libs the_phone"
  by (simp add: fixture_defs is_digit_def)

text \<open>
  Two requests for a code, 61 seconds apart and drawing the same random number, leave two
  rows with the same phone and code in the store.
\<close>

lemma first_request_stores_one_code:
  "db_after (send_phone_verification_code plain_libs env_unconfigured (world_at 0) empty_db
      \<lparr>sr_phone = the_phone\<rparr>) = db_one_code"
  by (simp add: send_accepted the_phone_valid generate_otp_half phoneVerification_create_def
      fresh_id_def empty_db_def db_one_code_def code_row_def world_at_def)

lemma second_request_stores_same_code:
  "db_after (send_phone_verification_code plain_libs env_unconfigured (world_at 61000) db_one_code
      \<lparr>sr_phone = the_phone\<rparr>) = db_two_codes"
  by (simp add: send_accepted the_phone_valid generate_otp_half phoneVerification_create_def
      fresh_id_def recent_where_def empty_db_def db_one_code_def db_two_codes_def code_row_def
      world_at_def)

text \<open>
  The middleware of the profile routes and the profile handler of the auth routes answer a
  token that \<^verbatim>\<open>jwt.verify\<close> rejects with 401.
\<close>

lemma authenticateToken_rejected:
  assumes "truthy (bearer_token authorization)"
    and "jwt_verify L (the (bearer_token authorization)) (jwt_secret env) (now w) = Inl e"
  shows "authenticateToken L env w authorization = Inl invalid_token"
  using assms by (simp add: authenticateToken_def)

lemma auth_profile_rejected:
  assumes "truthy (bearer_token authorization)"
    and "jwt_verify L (the (bearer_token authorization)) (jwt_secret env) (now w) = Inl e"
  shows "status (response (auth_profile L env w d authorization)) = 401"
  using assms by (simp add: auth_profile_def invalid_token_def res_status_json_def)

lemma create_package_rejected:
  assumes "package_validation req = []"
    and "truthy (bearer_token (pr_authorization req))"
    and "jwt_verify L (the (bearer_token (pr_authorization req))) (jwt_secret env) (now w) = Inl e"
  shows "status (response (create_package L env w d req)) = 401"
  using assms
  by (simp add: create_package_def validateRequest_def authenticated_def
      authenticateToken_rejected invalid_token_def res_status_json_def)

lemma update_name_rejected:
  assumes "un_name req \<noteq> []"
    and "truthy (bearer_token (un_authorization req))"
    and "jwt_verify L (the (bearer_token (un_authorization req))) (jwt_secret env) (now w) = Inl e"
  shows "response (update_name L env w d req) = update_name_catch e"
  using assms by (simp add: update_name_def validateRequest_def check_def)

lemma not_a_token: "bearer_token (un_authorization the_update_name_request) = Some ''not-a-token''"
  by (simp add: the_update_name_request_def bearer_token_def)

lemma user_token_authenticates:
  "authenticateToken plain_libs env_unconfigured w user_token = Inr ''7''"
  by (simp add: authenticateToken_def bearer_token_def user_token_def truthy_def jwt_secret_def
      env_unconfigured_def plain_libs_def plain_verify_def)

lemma plain_BigInt_7: "BigInt plain_libs ''7'' = Some 7"
  by (simp add: plain_libs_def plain_BigInt_def is_digit_def decimal_value_def digit_value_def)

section \<open>Requesting a code\<close>

text \<open>
  C7. For every double \<open>r\<close> with \<open>0 \<le> r < 1\<close>, in double arithmetic (the product and
  the sum each a double nearest to the exact result), the code
  \<^verbatim>\<open>Math.floor(100000 + r * 900000).toString()\<close> is a string of exactly six decimal digits
  whose value is the floor and lies between 100000 and 999999. The code is spread evenly
  over that range: the code \<open>k\<close> is drawn only for \<open>r\<close> in the \<open>k\<close>-th slice of
  width 1/900000, up to the rounding error 2^-33 at the ends of the slice.
\<close>

theorem generated_code_is_six_digits:
  assumes "is_double r" "0 \<le> r" "r < 1"
    and "nearest_double (r * 900000) (number_times L r 900000)"
    and "nearest_double (100000 + number_times L r 900000)
           (number_plus L 100000 (number_times L r 900000))"
  shows "100000 \<le> \<lfloor>number_plus L 100000 (number_times L r 900000)\<rfloor>
       \<and> \<lfloor>number_plus L 100000 (number_times L r 900000)\<rfloor> \<le> 999999
       \<and> length (generate_otp L r) = 6
       \<and> list_all is_digit (generate_otp L r)
       \<and> int (decimal_value (generate_otp L r)) =
           \<lfloor>number_plus L 100000 (number_times L r 900000)\<rfloor>
       \<and> (real (decimal_value (generate_otp L r)) - 100000 - 1 / 2 ^ 33) / 900000 \<le> r
       \<and> r < (real (decimal_value (generate_otp L r)) - 99999 + 1 / 2 ^ 33) / 900000"
proof -
  define k where "k = \<lfloor>number_plus L 100000 (number_times L r 900000)\<rfloor>"
  note bounds = sum_bound [OF assms, folded k_def]
  have lo: "100000 \<le> k" and hi: "k \<le> 999999" by (rule bounds)+
  have otp: "generate_otp L r = toString_nat (nat k)"
    unfolding generate_otp_def toString_def k_def [symmetric] using lo by simp
  have len: "length (generate_otp L r) = 6"
    unfolding otp using lo hi by (intro length_toString_nat_six) simp_all
  have digits: "list_all is_digit (generate_otp L r)"
    unfolding otp by (rule toString_nat_digits)
  have val: "int (decimal_value (generate_otp L r)) = k"
    unfolding otp using lo by (simp add: decimal_value_toString_nat)
  then have rval: "real (decimal_value (generate_otp L r)) = real_of_int k"
    by (metis of_int_of_nat_eq)
  have left: "(real (decimal_value (generate_otp L r)) - 100000 - 1 / 2 ^ 33) / 900000 \<le> r"
    unfolding rval using bounds(3) by (simp add: field_simps)
  have right: "r < (real (decimal_value (generate_otp L r)) - 99999 + 1 / 2 ^ 33) / 900000"
    unfolding rval using bounds(4) by (simp add: field_simps)
  from lo hi len digits val left right show ?thesis unfolding k_def by blast
qed

theorem generated_code_is_six_digits_witness:
  "is_double boundary_random \<and> 0 \<le> boundary_random \<and> boundary_random < 1
   \<and> nearest_double (boundary_random * 900000)
        (number_times rounding_libs boundary_random 900000)
   \<and> nearest_double (100000 + number_times rounding_libs boundary_random 900000)
        (number_plus rounding_libs 100000 (number_times rounding_libs boundary_random 900000))
   \<and> \<lfloor>100000 + boundary_random * 900000\<rfloor> = 100029
   \<and> generate_otp rounding_libs boundary_random = ''100030''
   \<and> length (generate_otp rounding_libs boundary_random) = 6
   \<and> list_all is_digit (generate_otp rounding_libs boundary_random)
   \<and> decimal_value (generate_otp rounding_libs boundary_random) = 100030"
proof -
  have dbl: "is_double boundary_random"
    unfolding boundary_random_def using scaled_down [of 150119987579 52] by simp
  have range: "0 \<le> boundary_random" "boundary_random < 1"
    by (simp_all add: boundary_random_def)
  have product: "number_times rounding_libs boundary_random 900000 = 8444249301318750 / 2 ^ 48"
    "boundary_random * 900000 = 8444249301318750 / 2 ^ 48"
    by (simp_all add: rounding_libs_def plain_libs_def boundary_random_def)
  have sum: "number_plus rounding_libs 100000 (8444249301318750 / 2 ^ 48) = 100030"
    by (simp add: rounding_libs_def plain_libs_def)
  have times: "nearest_double (boundary_random * 900000)
      (number_times rounding_libs boundary_random 900000)"
    unfolding product by (rule nearest_exact [OF boundary_product_double])
  have plus: "nearest_double (100000 + number_times rounding_libs boundary_random 900000)
      (number_plus rounding_libs 100000 (number_times rounding_libs boundary_random 900000))"
    unfolding product sum by (rule boundary_sum_nearest)
  have exact: "\<lfloor>100000 + boundary_random * 900000\<rfloor> = 100029"
    by (simp add: boundary_random_def floor_eq_iff)
  have code: "generate_otp rounding_libs boundary_random = ''100030''"
    unfolding generate_otp_def product sum
    by (simp add: toString_def toString_nat.simps digit_def)
  have "decimal_value ''100030'' = 100030"
    by (simp add: decimal_value_def digit_value_def)
  with generated_code_is_six_digits [OF dbl range times plus] dbl range times plus exact code
  show ?thesis by simp
qed

text \<open>
  C3. For a valid phone number, a row of that phone created less than 60 seconds before the
  request makes request-code answer 429. In particular, after a request that was answered
  with success, a second request less than 60 seconds later is answered 429.
\<close>

theorem request_code_cooldown:
  assumes "isMobilePhone L (sr_phone req)"
  shows "((\<exists>r \<in> set (phoneVerifications d).
            pv_phone r = sr_phone req \<and> now w - pv_created_at r < 60 * 1000)
          \<longrightarrow> status (response (send_phone_verification_code L env w d req)) = 429)
       \<and> (status (response (send_phone_verification_code L env w d req)) = 200
            \<and> now w' - now w < 60 * 1000
          \<longrightarrow> status (response (send_phone_verification_code L env' w'
                  (db_after (send_phone_verification_code L env w d req)) req)) = 429)"
proof (intro conjI impI)
  assume "\<exists>r \<in> set (phoneVerifications d).
            pv_phone r = sr_phone req \<and> now w - pv_created_at r < 60 * 1000"
  then have "\<exists>r \<in> set (phoneVerifications d). recent_where (sr_phone req) (now w) r"
    by (auto simp: recent_where_def)
  with assms show "status (response (send_phone_verification_code L env w d req)) = 429"
    by (simp add: send_status_cases)
next
  let ?o = "send_phone_verification_code L env w d req"
  assume a: "status (response ?o) = 200 \<and> now w' - now w < 60 * 1000"
  then have "\<forall>r \<in> set (phoneVerifications d). \<not> recent_where (sr_phone req) (now w) r"
    using assms by (auto simp: send_status_cases split: if_splits)
  from send_accepted [OF assms this, of env]
  have "\<exists>r \<in> set (phoneVerifications (db_after ?o)). recent_where (sr_phone req) (now w') r"
    using a by (simp add: phoneVerification_create_def recent_where_def)
  with assms show "status (response (send_phone_verification_code L env' w' (db_after ?o) req)) = 429"
    by (simp add: send_status_cases)
qed

theorem request_code_cooldown_witness:
  "isMobilePhone plain_libs the_phone
   \<and> status (response (send_phone_verification_code plain_libs env_unconfigured (world_at 30000)
        db_one_code \<lparr>sr_phone = the_phone\<rparr>)) = 429
   \<and> status (response (send_phone_verification_code plain_libs env_unconfigured (world_at 0)
        empty_db \<lparr>sr_phone = the_phone\<rparr>)) = 200
   \<and> status (response (send_phone_verification_code plain_libs env_configured (world_at 59999)
        (db_after (send_phone_verification_code plain_libs env_unconfigured (world_at 0)
           empty_db \<lparr>sr_phone = the_phone\<rparr>))
        \<lparr>sr_phone = the_phone\<rparr>)) = 429"
proof -
  have valid: "isMobilePhone plain_libs (sr_phone \<lparr>sr_phone = the_phone\<rparr>)"
    by (simp add: the_phone_valid)
  have recent: "\<exists>r \<in> set (phoneVerifications db_one_code).
      pv_phone r = sr_phone \<lparr>sr_phone = the_phone\<rparr>
      \<and> now (world_at 30000) - pv_created_at r < 60 * 1000"
    by (simp add: db_one_code_def empty_db_def code_row_def world_at_def)
  have first: "status (response (send_phone_verification_code plain_libs env_unconfigured
      (world_at 0) empty_db \<lparr>sr_phone = the_phone\<rparr>)) = 200"
    by (simp add: send_status_cases the_phone_valid empty_db_def)
  have soon: "now (world_at 59999) - now (world_at 0) < 60 * 1000"
    by (simp add: world_at_def)
  from request_code_cooldown [OF valid, of db_one_code "world_at 30000" env_unconfigured]
    request_code_cooldown [OF valid, of empty_db "world_at 0" env_unconfigured
      "world_at 59999" env_configured]
    recent first soon the_phone_valid
  show ?thesis by simp
qed

text \<open>
  C10. A request-code call answered with the 429 of the cooldown leaves the store as it was
  and has made one call only, the cooldown lookup: no random number or token was drawn, no
  row was created and the provider was not called.
\<close>

theorem cooldown_rejection_changes_nothing:
  assumes "status (response (send_phone_verification_code L env w d req)) = 429"
  shows "db_after (send_phone_verification_code L env w d req) = d
       \<and> effects (send_phone_verification_code L env w d req) = [PhoneVerification_findFirst]"
proof -
  from assms have "isMobilePhone L (sr_phone req)"
    and "\<exists>r \<in> set (phoneVerifications d). recent_where (sr_phone req) (now w) r"
    by (auto simp: send_status_cases split: if_splits)
  then show ?thesis by (simp add: send_rejected)
qed

theorem cooldown_rejection_changes_nothing_witness:
  "status (response (send_phone_verification_code plain_libs env_configured (world_at 30000)
      db_one_code \<lparr>sr_phone = the_phone\<rparr>)) = 429
   \<and> db_after (send_phone_verification_code plain_libs env_configured (world_at 30000)
      db_one_code \<lparr>sr_phone = the_phone\<rparr>) = db_one_code
   \<and> effects (send_phone_verification_code plain_libs env_configured (world_at 30000)
      db_one_code \<lparr>sr_phone = the_phone\<rparr>) = [PhoneVerification_findFirst]"
proof -
  have rejected: "status (response (send_phone_verification_code plain_libs env_configured
      (world_at 30000) db_one_code \<lparr>sr_phone = the_phone\<rparr>)) = 429"
    by (simp add: send_status_cases the_phone_valid recent_where_def db_one_code_def
        empty_db_def code_row_def world_at_def)
  from cooldown_rejection_changes_nothing [OF rejected] rejected show ?thesis by simp
qed

text \<open>
  C6. A request-code call that passes validation and the cooldown guard stores the row and
  answers with the same success body whatever the dispatch does: the answer does not change
  with the configuration or with what the provider returns. A provider failure is written
  to the error log; without the provider no provider call is made and the code is logged.
\<close>

theorem request_code_reports_success:
  assumes "isMobilePhone L (sr_phone req)"
    and "\<forall>r \<in> set (phoneVerifications d).
           pv_phone r = sr_phone req \<longrightarrow> pv_created_at r \<le> now w - 60 * 1000"
  shows "response (send_phone_verification_code L env w d req) =
           res_json (JObj [(''success'', JBool True),
                           (''message'', JStr ''Verification code sent successfully''),
                           (''phone'', JStr (sr_phone req))])
       \<and> response (send_phone_verification_code L env' (w\<lparr>twilio_verifications_create := sent\<rparr>) d req) =
           response (send_phone_verification_code L env w d req)
       \<and> db_after (send_phone_verification_code L env w d req) =
           d\<lparr>phoneVerifications :=
               phoneVerification_create (now w) (sr_phone req) (generate_otp L (math_random w))
                 (random_bytes_hex w) (now w + 10 * 60 * 1000) (phoneVerifications d)\<rparr>
       \<and> (twilio_configured env \<and> twilio_verifications_create w \<noteq> Inr ()
            \<longrightarrow> Console_error ''SMS sending failed:''
                  \<in> set (effects (send_phone_verification_code L env w d req)))
       \<and> (\<not> twilio_configured env
            \<longrightarrow> Twilio_verifications_create (sr_phone req)
                  \<notin> set (effects (send_phone_verification_code L env w d req))
              \<and> Console_log (''OTP for '' @ sr_phone req @ '': '' @ generate_otp L (math_random w)
                              @ '' (Twilio not configured)'')
                  \<in> set (effects (send_phone_verification_code L env w d req)))"
proof -
  from assms(2)
  have none: "\<forall>r \<in> set (phoneVerifications d). \<not> recent_where (sr_phone req) (now w) r"
    by (auto simp: recent_where_def)
  then have none': "\<forall>r \<in> set (phoneVerifications d).
      \<not> recent_where (sr_phone req) (now (w\<lparr>twilio_verifications_create := sent\<rparr>)) r"
    by simp
  show ?thesis
    unfolding send_accepted [OF assms(1) none] send_accepted [OF assms(1) none']
    by (cases "twilio_verifications_create w") (simp_all add: dispatch_sms_def)
qed

theorem request_code_reports_success_witness:
  "isMobilePhone plain_libs the_phone
   \<and> twilio_configured env_configured
   \<and> response (send_phone_verification_code plain_libs env_configured
        ((world_at 0)\<lparr>twilio_verifications_create := Inl (Error ''Too many requests'' (Some 429))\<rparr>)
        empty_db \<lparr>sr_phone = the_phone\<rparr>) =
       res_json (JObj [(''success'', JBool True),
                       (''message'', JStr ''Verification code sent successfully''),
                       (''phone'', JStr the_phone)])
   \<and> response (send_phone_verification_code plain_libs env_unconfigured (world_at 0)
        empty_db \<lparr>sr_phone = the_phone\<rparr>) =
       response (send_phone_verification_code plain_libs env_configured
        ((world_at 0)\<lparr>twilio_verifications_create := Inl (Error ''Too many requests'' (Some 429))\<rparr>)
        empty_db \<lparr>sr_phone = the_phone\<rparr>)
   \<and> Console_error ''SMS sending failed:''
       \<in> set (effects (send_phone_verification_code plain_libs env_configured
            ((world_at 0)\<lparr>twilio_verifications_create := Inl (Error ''Too many requests'' (Some 429))\<rparr>)
            empty_db \<lparr>sr_phone = the_phone\<rparr>))"
proof -
  let ?w = "(world_at 0)\<lparr>twilio_verifications_create := Inl (Error ''Too many requests'' (Some 429))\<rparr>"
  have valid: "isMobilePhone plain_libs (sr_phone \<lparr>sr_phone = the_phone\<rparr>)"
    by (simp add: the_phone_valid)
  have fresh: "\<forall>r \<in> set (phoneVerifications empty_db).
      pv_phone r = sr_phone \<lparr>sr_phone = the_phone\<rparr> \<longrightarrow> pv_created_at r \<le> now ?w - 60 * 1000"
    by (simp add: empty_db_def)
  have conf: "twilio_configured env_configured"
    by (simp add: twilio_configured_def truthy_def env_configured_def)
  have failed: "twilio_verifications_create ?w \<noteq> Inr ()" by simp
  have same: "?w\<lparr>twilio_verifications_create := Inr ()\<rparr> = world_at 0"
    by (simp add: world_at_def)
  from request_code_reports_success [OF valid fresh, of env_configured env_unconfigured "Inr ()"]
    conf failed same the_phone_valid
  show ?thesis by simp
qed

section \<open>Verifying a code\<close>

text \<open>
  C4. Without the provider, a valid verify-code request fails with the invalid-or-expired
  answer, and changes nothing, when every row with this phone and code has an expiry that
  is not in the future, although the code matches.
\<close>

theorem expired_code_is_rejected:
  assumes "\<not> twilio_configured env"
    and "isMobilePhone L (vr_phone req)" "length (vr_code req) = 6"
    and "\<forall>r \<in> set (phoneVerifications d).
           pv_phone r = vr_phone req \<and> pv_code r = vr_code req \<longrightarrow> pv_expires_at r \<le> now w"
  shows "response (verify_phone_code L env w d req) = invalid_or_expired
       \<and> db_after (verify_phone_code L env w d req) = d"
proof -
  from assms(4) have "\<forall>r \<in> set (phoneVerifications d).
      \<not> verification_where (vr_phone req) (vr_code req) (now w) r"
    by (auto simp: verification_where_def)
  then show ?thesis
    by (simp add: verify_valid [OF assms(2,3)] twilio_check_unconfigured [OF assms(1)]
        database_verification_none)
qed

theorem expired_code_is_rejected_witness:
  "\<not> twilio_configured env_unconfigured
   \<and> isMobilePhone plain_libs (vr_phone the_verify_request)
   \<and> length (vr_code the_verify_request) = 6
   \<and> pv_code (code_row 1 0) = vr_code the_verify_request
   \<and> pv_expires_at (code_row 1 0) < now (world_at 660000)
   \<and> response (verify_phone_code plain_libs env_unconfigured (world_at 660000) db_one_code
        the_verify_request) = invalid_or_expired
   \<and> db_after (verify_phone_code plain_libs env_unconfigured (world_at 660000) db_one_code
        the_verify_request) = db_one_code"
proof -
  have unconfigured: "\<not> twilio_configured env_unconfigured"
    by (simp add: twilio_configured_def truthy_def env_unconfigured_def)
  have valid: "isMobilePhone plain_libs (vr_phone the_verify_request)"
    "length (vr_code the_verify_request) = 6"
    using the_phone_valid by (simp_all add: the_verify_request_def)
  have expired: "\<forall>r \<in> set (phoneVerifications db_one_code).
      pv_phone r = vr_phone the_verify_request \<and> pv_code r = vr_code the_verify_request
      \<longrightarrow> pv_expires_at r \<le> now (world_at 660000)"
    by (simp add: db_one_code_def empty_db_def code_row_def world_at_def)
  have row: "pv_code (code_row 1 0) = vr_code the_verify_request"
    "pv_expires_at (code_row 1 0) < now (world_at 660000)"
    by (simp_all add: code_row_def the_verify_request_def world_at_def)
  from expired_code_is_rejected [OF unconfigured valid expired] unconfigured valid row
  show ?thesis by simp
qed

text \<open>
  C1, as stated, fails: with two unexpired, unverified rows of the same phone and code in
  the store (two requests 61 seconds apart that drew the same code), the first verify-code
  call succeeds and so does the second.
\<close>

theorem verify_code_twice_counterexample:
  "\<not> twilio_configured env_unconfigured
   \<and> code_row 2 61000 \<in> set (phoneVerifications db_two_codes)
   \<and> verification_where (vr_phone the_verify_request) (vr_code the_verify_request)
       (now (world_at 62000)) (code_row 2 61000)
   \<and> status (response (verify_phone_code plain_libs env_unconfigured (world_at 62000)
        db_two_codes the_verify_request)) = 200
   \<and> status (response (verify_phone_code plain_libs env_unconfigured (world_at 63000)
        (db_after (verify_phone_code plain_libs env_unconfigured (world_at 62000)
           db_two_codes the_verify_request))
        the_verify_request)) = 200"
  by (simp add: fixture_defs handler_defs)

text \<open>
  C1, amended. Without the provider, when exactly one row matches the phone and code
  unexpired and unverified, the keys of the table are distinct and the second call is not
  earlier than the first: the first verify-code call succeeds and sets \<open>verified_at\<close> of
  that row, and of no other, to the time of the call; a second call with the same phone
  and code fails with the invalid-or-expired answer.
\<close>

theorem verify_code_succeeds_once:
  assumes unconfigured: "\<not> twilio_configured env" "\<not> twilio_configured env'"
    and valid: "isMobilePhone L (vr_phone req)" "isMobilePhone L' (vr_phone req)"
      "length (vr_code req) = 6"
    and keys: "distinct (map pv_id (phoneVerifications d))"
    and r: "r \<in> set (phoneVerifications d)"
      "verification_where (vr_phone req) (vr_code req) (now w) r"
    and only: "\<forall>x \<in> set (phoneVerifications d).
                 verification_where (vr_phone req) (vr_code req) (now w) x \<longrightarrow> x = r"
    and later: "now w \<le> now w'"
  shows "status (response (verify_phone_code L env w d req)) = 200
       \<and> phoneVerifications (db_after (verify_phone_code L env w d req)) =
           map (\<lambda>x. if x = r then x\<lparr>pv_verified_at := Some (now w)\<rparr> else x) (phoneVerifications d)
       \<and> response (verify_phone_code L' env' w' (db_after (verify_phone_code L env w d req)) req) =
           invalid_or_expired"
proof -
  let ?o = "verify_phone_code L env w d req"
  from verify_local_success [OF valid(1,3) twilio_check_unconfigured [OF unconfigured(1)] r]
  obtain v where v: "v \<in> set (phoneVerifications d)"
      "verification_where (vr_phone req) (vr_code req) (now w) v"
    and ok: "status (response ?o) = 200"
    and rows: "phoneVerifications (db_after ?o) =
              update_where (\<lambda>x. pv_id x = pv_id v) (\<lambda>x. x\<lparr>pv_verified_at := Some (now w)\<rparr>)
                (phoneVerifications d)"
    by blast
  from only v have "v = r" by blast
  with rows update_where_distinct [OF keys r(1), of "\<lambda>x. x\<lparr>pv_verified_at := Some (now w)\<rparr>"]
  have marked: "phoneVerifications (db_after ?o) =
           map (\<lambda>x. if x = r then x\<lparr>pv_verified_at := Some (now w)\<rparr> else x) (phoneVerifications d)"
    by simp
  have "\<forall>x \<in> set (phoneVerifications (db_after ?o)).
          \<not> verification_where (vr_phone req) (vr_code req) (now w') x"
    unfolding marked using only later by (auto simp: verification_where_def)
  then have "response (verify_phone_code L' env' w' (db_after ?o) req) = invalid_or_expired"
    by (simp add: verify_valid [OF valid(2,3)] twilio_check_unconfigured [OF unconfigured(2)]
        database_verification_none)
  with ok marked show ?thesis by simp
qed

theorem verify_code_succeeds_once_witness:
  "\<not> twilio_configured env_unconfigured
   \<and> isMobilePhone plain_libs (vr_phone the_verify_request)
   \<and> length (vr_code the_verify_request) = 6
   \<and> verification_where (vr_phone the_verify_request) (vr_code the_verify_request)
       (now (world_at 1000)) (code_row 1 0)
   \<and> status (response (verify_phone_code plain_libs env_unconfigured (world_at 1000) db_one_code
        the_verify_request)) = 200
   \<and> phoneVerifications (db_after (verify_phone_code plain_libs env_unconfigured (world_at 1000)
        db_one_code the_verify_request)) = [(code_row 1 0)\<lparr>pv_verified_at := Some 1000\<rparr>]
   \<and> response (verify_phone_code plain_libs env_unconfigured (world_at 2000)
        (db_after (verify_phone_code plain_libs env_unconfigured (world_at 1000) db_one_code
           the_verify_request))
        the_verify_request) = invalid_or_expired"
proof -
  have unconfigured: "\<not> twilio_configured env_unconfigured"
    by (simp add: twilio_configured_def truthy_def env_unconfigured_def)
  have valid: "isMobilePhone plain_libs (vr_phone the_verify_request)"
    "length (vr_code the_verify_request) = 6"
    using the_phone_valid by (simp_all add: the_verify_request_def)
  have keys: "distinct (map pv_id (phoneVerifications db_one_code))"
    by (simp add: db_one_code_def empty_db_def)
  have row: "code_row 1 0 \<in> set (phoneVerifications db_one_code)"
    by (simp add: db_one_code_def empty_db_def)
  have matches: "verification_where (vr_phone the_verify_request) (vr_code the_verify_request)
      (now (world_at 1000)) (code_row 1 0)"
    by (simp add: verification_where_def the_verify_request_def code_row_def world_at_def)
  have only: "\<forall>x \<in> set (phoneVerifications db_one_code).
      verification_where (vr_phone the_verify_request) (vr_code the_verify_request)
        (now (world_at 1000)) x \<longrightarrow> x = code_row 1 0"
    by (simp add: db_one_code_def empty_db_def)
  have later: "now (world_at 1000) \<le> now (world_at 2000)"
    by (simp add: world_at_def)
  have rows: "map (\<lambda>x. if x = code_row 1 0
                        then x\<lparr>pv_verified_at := Some (now (world_at 1000))\<rparr> else x)
                (phoneVerifications db_one_code) = [(code_row 1 0)\<lparr>pv_verified_at := Some 1000\<rparr>]"
    by (simp add: db_one_code_def empty_db_def world_at_def)
  from verify_code_succeeds_once [OF unconfigured unconfigured valid(1) valid(1) valid(2)
      keys row matches only later]
    unconfigured valid matches rows
  show ?thesis by simp
qed

text \<open>
  C2. With the provider configured and a valid request: a provider answer other than
  approved ends verify-code with the 400 invalid-code answer after the provider call
  alone, whatever rows the store holds; a provider call that throws, rate limit or not,
  gives the answer and the store of the same request without the provider, reached through
  the local lookup.
\<close>

theorem provider_failures_are_asymmetric:
  assumes "twilio_configured env"
    and "isMobilePhone L (vr_phone req)" "length (vr_code req) = 6"
  shows "(\<forall>st. twilio_verification_checks_create w = Inr st \<and> st \<noteq> ''approved'' \<longrightarrow>
            response (verify_phone_code L env w d req) =
              res_status_json 400 (JObj [(''error'', JStr ''Invalid verification code'')])
          \<and> db_after (verify_phone_code L env w d req) = d
          \<and> effects (verify_phone_code L env w d req) =
              [Twilio_verificationChecks_create (vr_phone req) (vr_code req)])
       \<and> (\<forall>e. twilio_verification_checks_create w = Inl e \<longrightarrow>
            response (verify_phone_code L env w d req) =
              response (verify_phone_code L (env\<lparr>TWILIO_ACCOUNT_SID := None\<rparr>) w d req)
          \<and> db_after (verify_phone_code L env w d req) =
              db_after (verify_phone_code L (env\<lparr>TWILIO_ACCOUNT_SID := None\<rparr>) w d req)
          \<and> PhoneVerification_findFirst \<in> set (effects (verify_phone_code L env w d req)))"
proof (intro conjI allI impI)
  fix st
  assume "twilio_verification_checks_create w = Inr st \<and> st \<noteq> ''approved''"
  then have tc: "twilio_check env w (vr_phone req) (vr_code req) =
     (Some (res_status_json 400 (JObj [(''error'', JStr ''Invalid verification code'')])), False,
      [Twilio_verificationChecks_create (vr_phone req) (vr_code req)])"
    using assms(1) by (simp add: twilio_check_denied)
  show "response (verify_phone_code L env w d req) =
              res_status_json 400 (JObj [(''error'', JStr ''Invalid verification code'')])"
    by (simp add: verify_valid [OF assms(2,3)] tc)
  show "db_after (verify_phone_code L env w d req) = d"
    by (simp add: verify_valid [OF assms(2,3)] tc)
  show "effects (verify_phone_code L env w d req) =
              [Twilio_verificationChecks_create (vr_phone req) (vr_code req)]"
    by (simp add: verify_valid [OF assms(2,3)] tc)
next
  fix e
  assume e: "twilio_verification_checks_create w = Inl e"
  let ?env' = "env\<lparr>TWILIO_ACCOUNT_SID := None\<rparr>"
  from twilio_check_error [OF assms(1) e] obtain log where
    tc: "twilio_check env w (vr_phone req) (vr_code req) = (None, False, log)" by blast
  have tc': "twilio_check ?env' w (vr_phone req) (vr_code req) = (None, False, [])"
    by (simp add: twilio_check_def twilio_configured_def truthy_def)
  have tok: "generateToken L ?env' w uid = generateToken L env w uid" for uid
    by (simp add: generateToken_def jwt_secret_def)
  show "response (verify_phone_code L env w d req) = response (verify_phone_code L ?env' w d req)"
    by (simp add: verify_valid [OF assms(2,3)] tc tc' tok split: sum.splits prod.splits)
  show "db_after (verify_phone_code L env w d req) = db_after (verify_phone_code L ?env' w d req)"
    by (simp add: verify_valid [OF assms(2,3)] tc tc' tok split: sum.splits prod.splits)
  show "PhoneVerification_findFirst \<in> set (effects (verify_phone_code L env w d req))"
    by (auto simp: verify_valid [OF assms(2,3)] tc database_verification_def
        split: sum.splits prod.splits option.splits)
qed

theorem provider_failures_are_asymmetric_witness:
  "twilio_configured env_configured
   \<and> verification_where (vr_phone the_verify_request) (vr_code the_verify_request)
       (now (world_at 1000)) (code_row 1 0)
   \<and> response (verify_phone_code plain_libs env_configured
        ((world_at 1000)\<lparr>twilio_verification_checks_create := Inr ''pending''\<rparr>)
        db_one_code the_verify_request) =
       res_status_json 400 (JObj [(''error'', JStr ''Invalid verification code'')])
   \<and> db_after (verify_phone_code plain_libs env_configured
        ((world_at 1000)\<lparr>twilio_verification_checks_create := Inr ''pending''\<rparr>)
        db_one_code the_verify_request) = db_one_code
   \<and> response (verify_phone_code plain_libs env_configured
        ((world_at 1000)\<lparr>twilio_verification_checks_create :=
                            Inl (Error ''Too many requests'' (Some 429))\<rparr>)
        db_one_code the_verify_request) =
       response (verify_phone_code plain_libs (env_configured\<lparr>TWILIO_ACCOUNT_SID := None\<rparr>)
        ((world_at 1000)\<lparr>twilio_verification_checks_create :=
                            Inl (Error ''Too many requests'' (Some 429))\<rparr>)
        db_one_code the_verify_request)
   \<and> status (response (verify_phone_code plain_libs env_configured
        ((world_at 1000)\<lparr>twilio_verification_checks_create :=
                            Inl (Error ''Too many requests'' (Some 429))\<rparr>)
        db_one_code the_verify_request)) = 200"
proof -
  let ?denied = "(world_at 1000)\<lparr>twilio_verification_checks_create := Inr ''pending''\<rparr>"
  let ?failed = "(world_at 1000)\<lparr>twilio_verification_checks_create :=
                                    Inl (Error ''Too many requests'' (Some 429))\<rparr>"
  have configured: "twilio_configured env_configured"
    by (simp add: twilio_configured_def truthy_def env_configured_def)
  have valid: "isMobilePhone plain_libs (vr_phone the_verify_request)"
    "length (vr_code the_verify_request) = 6"
    using the_phone_valid by (simp_all add: the_verify_request_def)
  have matches: "verification_where (vr_phone the_verify_request) (vr_code the_verify_request)
      (now (world_at 1000)) (code_row 1 0)"
    by (simp add: verification_where_def the_verify_request_def code_row_def world_at_def)
  have denied: "twilio_verification_checks_create ?denied = Inr ''pending'' \<and> ''pending'' \<noteq> ''approved''"
    by simp
  have failed: "twilio_verification_checks_create ?failed = Inl (Error ''Too many requests'' (Some 429))"
    by simp
  have local: "status (response (verify_phone_code plain_libs
      (env_configured\<lparr>TWILIO_ACCOUNT_SID := None\<rparr>) ?failed db_one_code the_verify_request)) = 200"
    by (simp add: fixture_defs handler_defs)
  from provider_failures_are_asymmetric [OF configured valid, of ?denied db_one_code]
    provider_failures_are_asymmetric [OF configured valid, of ?failed db_one_code]
    configured matches denied failed local
  show ?thesis by simp
qed

text \<open>
  C5. With the provider configured and its check answering approved, a valid verify-code
  request succeeds without a lookup or an update of the phone-verification rows, which are
  all left as they were. The user is found or created by the phone: a stored user with
  this phone is updated in place (verified, last login now, the name if one was given),
  otherwise a new user with this phone and a fresh id is appended. The answer is the 200
  body with this user's id, phone and name and the token signed for
  \<^verbatim>\<open>{ userId: id.toString(), iat: now }\<close> with the configured secret. The ids of the
  stored users are distinct, as keys are.
\<close>

theorem provider_approval_skips_local_rows:
  assumes "twilio_configured env"
    and "isMobilePhone L (vr_phone req)" "length (vr_code req) = 6"
    and "twilio_verification_checks_create w = Inr ''approved''"
    and "distinct (map u_id (users d))"
  shows "phoneVerifications (db_after (verify_phone_code L env w d req)) = phoneVerifications d
       \<and> PhoneVerification_findFirst \<notin> set (effects (verify_phone_code L env w d req))
       \<and> (\<forall>i. PhoneVerification_update i \<notin> set (effects (verify_phone_code L env w d req)))
       \<and> (\<exists>user \<in> set (users (db_after (verify_phone_code L env w d req))).
            u_phone user = Some (vr_phone req) \<and> u_phone_verified user
          \<and> (if \<exists>u \<in> set (users d). u_phone u = Some (vr_phone req)
              then \<exists>found \<in> set (users d).
                     u_phone found = Some (vr_phone req)
                   \<and> u_id user = u_id found
                   \<and> u_last_login_at user = Some (now w)
                   \<and> u_name user = (if truthy (vr_fullName req) then vr_fullName req
                                     else u_name found)
                   \<and> users (db_after (verify_phone_code L env w d req)) =
                       map (\<lambda>u. if u = found then user else u) (users d)
              else u_id user \<notin> set (map u_id (users d))
                 \<and> u_name user = Some (if truthy (vr_fullName req) then the (vr_fullName req)
                                         else ''User'')
                 \<and> users (db_after (verify_phone_code L env w d req)) = users d @ [user])
          \<and> response (verify_phone_code L env w d req) =
              \<lparr>status = 200,
               body = JObj [(''success'', JBool True),
                            (''message'', JStr ''Phone verification successful''),
                            (''user'', JObj [(''id'', JStr (toString (u_id user))),
                                             (''phone'', JStr (vr_phone req)),
                                             (''name'', (case u_name user of None \<Rightarrow> JNull
                                                         | Some n \<Rightarrow> JStr n)),
                                             (''isVerified'', JBool True)]),
                            (''token'', JStr (jwt_sign L
                                \<lparr>userId = toString (u_id user), iat = now w\<rparr>
                                (jwt_secret env)))]\<rparr>)
       \<and> effects (verify_phone_code L env w d req) =
           [Twilio_verificationChecks_create (vr_phone req) (vr_code req), User_findUnique,
            (if \<exists>u \<in> set (users d). u_phone u = Some (vr_phone req) then User_update
             else User_create),
            Jwt_sign]"
proof (cases "find (\<lambda>u. u_phone u = Some (vr_phone req)) (users d)")
  case None
  then have none: "\<not> (\<exists>u \<in> set (users d). u_phone u = Some (vr_phone req))"
    by (simp add: find_None_iff)
  let ?user = "user_create_phone (vr_phone req) (vr_fullName req) (users d)"
  have out: "verify_phone_code L env w d req =
     \<lparr>response = verify_success ?user (generateToken L env w (u_id ?user)),
      db_after = d\<lparr>users := users d @ [?user]\<rparr>,
      effects = [Twilio_verificationChecks_create (vr_phone req) (vr_code req),
                 User_findUnique, User_create, Jwt_sign]\<rparr>"
    by (simp add: verify_valid [OF assms(2,3)] twilio_check_approved [OF assms(1,4)]
        find_or_create_user_new [OF None])
  have fresh: "u_id ?user \<notin> set (map u_id (users d))"
    using fresh_id_greater [of "u_id ?user" "map u_id (users d)"]
    by (auto simp: user_create_phone_def)
  have user: "u_phone ?user = Some (vr_phone req)" "u_phone_verified ?user"
    "u_name ?user = Some (if truthy (vr_fullName req) then the (vr_fullName req) else ''User'')"
    by (simp_all add: user_create_phone_def or_default_def)
  have "?user \<in> set (users d @ [?user])" by simp
  with fresh user show ?thesis
    unfolding out using none
    by (auto simp: verify_success_def res_json_def generateToken_def json_opt_def)
next
  case (Some found)
  then have found: "found \<in> set (users d)" "u_phone found = Some (vr_phone req)"
    using find_Some_mem [OF Some] by simp_all
  then have some: "\<exists>u \<in> set (users d). u_phone u = Some (vr_phone req)" by blast
  let ?user = "user_login_update (now w) (vr_fullName req) found"
  have out: "verify_phone_code L env w d req =
     \<lparr>response = verify_success ?user (generateToken L env w (u_id ?user)),
      db_after = d\<lparr>users := map (\<lambda>u. if u = found then ?user else u) (users d)\<rparr>,
      effects = [Twilio_verificationChecks_create (vr_phone req) (vr_code req),
                 User_findUnique, User_update, Jwt_sign]\<rparr>"
    by (simp add: verify_valid [OF assms(2,3)] twilio_check_approved [OF assms(1,4)]
        find_or_create_user_found [OF Some assms(5)] cong: map_cong)
  have user: "u_phone ?user = Some (vr_phone req)" "u_phone_verified ?user"
    "u_id ?user = u_id found" "u_last_login_at ?user = Some (now w)"
    "u_name ?user = (if truthy (vr_fullName req) then vr_fullName req else u_name found)"
    using found(2) by (simp_all add: user_login_update_def Let_def)
  have mem: "?user \<in> set (map (\<lambda>u. if u = found then ?user else u) (users d))"
    using found(1) by (auto simp: image_iff)
  have body: "response (verify_phone_code L env w d req) =
              \<lparr>status = 200,
               body = JObj [(''success'', JBool True),
                            (''message'', JStr ''Phone verification successful''),
                            (''user'', JObj [(''id'', JStr (toString (u_id ?user))),
                                             (''phone'', JStr (vr_phone req)),
                                             (''name'', (case u_name ?user of None \<Rightarrow> JNull
                                                         | Some n \<Rightarrow> JStr n)),
                                             (''isVerified'', JBool True)]),
                            (''token'', JStr (jwt_sign L
                                \<lparr>userId = toString (u_id ?user), iat = now w\<rparr>
                                (jwt_secret env)))]\<rparr>"
    unfolding out using user(1,2)
    by (simp add: verify_success_def res_json_def generateToken_def json_opt_def)
  have ex: "\<exists>f \<in> set (users d).
                     u_phone f = Some (vr_phone req)
                   \<and> u_id ?user = u_id f
                   \<and> u_last_login_at ?user = Some (now w)
                   \<and> u_name ?user = (if truthy (vr_fullName req) then vr_fullName req
                                     else u_name f)
                   \<and> users (db_after (verify_phone_code L env w d req)) =
                       map (\<lambda>u. if u = f then ?user else u) (users d)"
    using found user(3,4,5) by (intro bexI [of _ found]) (simp_all add: out)
  have "\<exists>user \<in> set (users (db_after (verify_phone_code L env w d req))).
            u_phone user = Some (vr_phone req) \<and> u_phone_verified user
          \<and> (\<exists>f \<in> set (users d).
                     u_phone f = Some (vr_phone req)
                   \<and> u_id user = u_id f
                   \<and> u_last_login_at user = Some (now w)
                   \<and> u_name user = (if truthy (vr_fullName req) then vr_fullName req
                                     else u_name f)
                   \<and> users (db_after (verify_phone_code L env w d req)) =
                       map (\<lambda>u. if u = f then user else u) (users d))
          \<and> response (verify_phone_code L env w d req) =
              \<lparr>status = 200,
               body = JObj [(''success'', JBool True),
                            (''message'', JStr ''Phone verification successful''),
                            (''user'', JObj [(''id'', JStr (toString (u_id user))),
                                             (''phone'', JStr (vr_phone req)),
                                             (''name'', (case u_name user of None \<Rightarrow> JNull
                                                         | Some n \<Rightarrow> JStr n)),
                                             (''isVerified'', JBool True)]),
                            (''token'', JStr (jwt_sign L
                                \<lparr>userId = toString (u_id user), iat = now w\<rparr>
                                (jwt_secret env)))]\<rparr>"
    using mem user(1,2) ex body by (intro bexI [of _ ?user]) (simp_all add: out)
  moreover have "phoneVerifications (db_after (verify_phone_code L env w d req)) = phoneVerifications d"
    "PhoneVerification_findFirst \<notin> set (effects (verify_phone_code L env w d req))"
    "\<forall>i. PhoneVerification_update i \<notin> set (effects (verify_phone_code L env w d req))"
    "effects (verify_phone_code L env w d req) =
           [Twilio_verificationChecks_create (vr_phone req) (vr_code req), User_findUnique,
            User_update, Jwt_sign]"
    by (simp_all add: out)
  ultimately show ?thesis using some by simp
qed

theorem provider_approval_skips_local_rows_witness:
  "twilio_configured env_configured
   \<and> isMobilePhone plain_libs (vr_phone the_verify_request)
   \<and> length (vr_code the_verify_request) = 6
   \<and> twilio_verification_checks_create (world_at 1000) = Inr ''approved''
   \<and> response (verify_phone_code plain_libs env_configured (world_at 1000) db_one_code
        the_verify_request) =
       \<lparr>status = 200,
        body = JObj [(''success'', JBool True),
                     (''message'', JStr ''Phone verification successful''),
                     (''user'', JObj [(''id'', JStr ''1''), (''phone'', JStr ''+14155552671''),
                                      (''name'', JStr ''Asha''), (''isVerified'', JBool True)]),
                     (''token'', JStr ''your-secret-key.1'')]\<rparr>
   \<and> map u_phone (users (db_after (verify_phone_code plain_libs env_configured (world_at 1000)
        db_one_code the_verify_request))) = [Some ''+14155552671'']
   \<and> phoneVerifications (db_after (verify_phone_code plain_libs env_configured (world_at 1000)
        db_one_code the_verify_request)) = [code_row 1 0]
   \<and> pv_verified_at (code_row 1 0) = None
   \<and> effects (verify_phone_code plain_libs env_configured (world_at 1000) db_one_code
        the_verify_request) =
       [Twilio_verificationChecks_create ''+14155552671'' ''550000'', User_findUnique,
        User_create, Jwt_sign]
   \<and> response (verify_phone_code plain_libs env_configured (world_at 1000) db_two_users
        the_verify_request) =
       \<lparr>status = 200,
        body = JObj [(''success'', JBool True),
                     (''message'', JStr ''Phone verification successful''),
                     (''user'', JObj [(''id'', JStr ''7''), (''phone'', JStr ''+14155552671''),
                                      (''name'', JStr ''Asha''), (''isVerified'', JBool True)]),
                     (''token'', JStr ''your-secret-key.7'')]\<rparr>
   \<and> users (db_after (verify_phone_code plain_libs env_configured (world_at 1000) db_two_users
        the_verify_request)) =
       [other_user, phone_user\<lparr>u_last_login_at := Some 1000\<rparr>]
   \<and> phoneVerifications (db_after (verify_phone_code plain_libs env_configured (world_at 1000)
        db_two_users the_verify_request)) = [code_row 1 0]
   \<and> effects (verify_phone_code plain_libs env_configured (world_at 1000) db_two_users
        the_verify_request) =
       [Twilio_verificationChecks_create ''+14155552671'' ''550000'', User_findUnique,
        User_update, Jwt_sign]"
proof -
  have configured: "twilio_configured env_configured"
    by (simp add: twilio_configured_def truthy_def env_configured_def)
  have valid: "isMobilePhone plain_libs (vr_phone the_verify_request)"
    "length (vr_code the_verify_request) = 6"
    using the_phone_valid by (simp_all add: the_verify_request_def)
  have approved: "twilio_verification_checks_create (world_at 1000) = Inr ''approved''"
    by (simp add: world_at_def)
  have keys: "distinct (map u_id (users db_one_code))" "distinct (map u_id (users db_two_users))"
    by (simp_all add: fixture_defs)
  have unverified: "pv_verified_at (code_row 1 0) = None"
    by (simp add: code_row_def)
  have ids: "toString 1 = ''1''" "toString 7 = ''7''"
    by (simp_all add: toString_def toString_nat.simps digit_def)
  have created: "verify_phone_code plain_libs env_configured (world_at 1000) db_one_code
        the_verify_request =
     \<lparr>response =
        \<lparr>status = 200,
         body = JObj [(''success'', JBool True),
                      (''message'', JStr ''Phone verification successful''),
                      (''user'', JObj [(''id'', JStr ''1''), (''phone'', JStr ''+14155552671''),
                                       (''name'', JStr ''Asha''), (''isVerified'', JBool True)]),
                      (''token'', JStr ''your-secret-key.1'')]\<rparr>,
      db_after = db_one_code\<lparr>users :=
        [\<lparr>u_id = 1, u_email = None, u_phone = Some ''+14155552671'', u_name = Some ''Asha'',
          u_profile_image_url = None, u_auth_provider = None, u_email_verified = False,
          u_phone_verified = True, u_user_type = ''creator'', u_status = ''active'',
          u_last_login_at = None\<rparr>]\<rparr>,
      effects = [Twilio_verificationChecks_create ''+14155552671'' ''550000'', User_findUnique,
                 User_create, Jwt_sign]\<rparr>"
    by (simp add: fixture_defs handler_defs json_opt_def ids)
  have updated: "verify_phone_code plain_libs env_configured (world_at 1000) db_two_users
        the_verify_request =
     \<lparr>response =
        \<lparr>status = 200,
         body = JObj [(''success'', JBool True),
                      (''message'', JStr ''Phone verification successful''),
                      (''user'', JObj [(''id'', JStr ''7''), (''phone'', JStr ''+14155552671''),
                                       (''name'', JStr ''Asha''), (''isVerified'', JBool True)]),
                      (''token'', JStr ''your-secret-key.7'')]\<rparr>,
      db_after = db_two_users\<lparr>users := [other_user, phone_user\<lparr>u_last_login_at := Some 1000\<rparr>]\<rparr>,
      effects = [Twilio_verificationChecks_create ''+14155552671'' ''550000'', User_findUnique,
                 User_update, Jwt_sign]\<rparr>"
    by (simp add: fixture_defs handler_defs json_opt_def ids)
  have rows: "phoneVerifications db_one_code = [code_row 1 0]"
    "phoneVerifications db_two_users = [code_row 1 0]"
    by (simp_all add: db_one_code_def db_two_users_def empty_db_def)
  from provider_approval_skips_local_rows [OF configured valid approved keys(1)]
    provider_approval_skips_local_rows [OF configured valid approved keys(2)]
  have frame: "phoneVerifications (db_after (verify_phone_code plain_libs env_configured
        (world_at 1000) db_one_code the_verify_request)) = phoneVerifications db_one_code"
    "phoneVerifications (db_after (verify_phone_code plain_libs env_configured
        (world_at 1000) db_two_users the_verify_request)) = phoneVerifications db_two_users"
    by blast+
  show ?thesis
    using configured valid approved unverified frame rows
    by (simp add: created updated)
qed

section \<open>Bearer-token routes\<close>

text \<open>
  C8, at the failing input. The update-name handler, given a name and the header
  \<^verbatim>\<open>Bearer not-a-token\<close>, answers 500 with the error \<^verbatim>\<open>Failed to update name\<close> whenever
  \<^verbatim>\<open>jwt.verify\<close> throws, whatever the error thrown (expired, malformed, wrong secret); the
  profile handler of the same routes answers the same header with 401.
\<close>

theorem update_name_invalid_token_is_500:
  "response (update_name (rejecting_libs e) env w d the_update_name_request) =
     res_status_json 500
       (JObj [(''error'', JStr ''Failed to update name''), (''message'', JStr (message e))])
   \<and> status (response (update_name (rejecting_libs e) env w d the_update_name_request)) = 500
   \<and> status (response (auth_profile (rejecting_libs e) env w d
        (un_authorization the_update_name_request))) = 401"
proof -
  have name: "un_name the_update_name_request \<noteq> []"
    by (simp add: the_update_name_request_def)
  have token: "truthy (bearer_token (un_authorization the_update_name_request))"
    by (simp add: not_a_token truthy_def)
  have thrown: "jwt_verify (rejecting_libs e)
      (the (bearer_token (un_authorization the_update_name_request))) (jwt_secret env) (now w) = Inl e"
    by (simp add: rejecting_libs_def)
  show ?thesis
    by (simp add: update_name_rejected [OF name token thrown]
        auth_profile_rejected [OF token thrown] update_name_catch_def res_status_json_def)
qed

section \<open>Creating rows for a creator profile\<close>

text \<open>
  C9, as stated, fails: for the user 7, who has no creator profile, a valid and
  authenticated create-package request is answered with status 400, not 404.
\<close>

theorem missing_creator_profile_counterexample:
  "package_validation the_package_request = []
   \<and> authenticateToken plain_libs env_unconfigured (world_at 0)
       (pr_authorization the_package_request) = Inr ''7''
   \<and> BigInt plain_libs ''7'' = Some 7
   \<and> creatorProfiles db_user_only = []
   \<and> status (response (create_package plain_libs env_unconfigured (world_at 0) db_user_only
        the_package_request)) = 400
   \<and> status (response (create_package plain_libs env_unconfigured (world_at 0) db_user_only
        the_package_request)) \<noteq> 404"
proof -
  have valid: "package_validation the_package_request = []"
    by (simp add: package_validation_def check_def the_package_request_def)
  have auth: "authenticateToken plain_libs env_unconfigured (world_at 0)
       (pr_authorization the_package_request) = Inr ''7''"
    by (simp add: the_package_request_def user_token_authenticates)
  have none: "creatorProfiles db_user_only = []"
    by (simp add: db_user_only_def empty_db_def)
  have "status (response (create_package plain_libs env_unconfigured (world_at 0) db_user_only
        the_package_request)) = 400"
    by (simp add: create_package_def validateRequest_def valid authenticated_def auth
        plain_BigInt_7 none creator_profile_not_found_def res_status_json_def)
  with valid auth none plain_BigInt_7 show ?thesis by simp
qed

text \<open>
  C9, amended. A create-package, create-portfolio or submit-kyc request that passes
  validation and carries a token verified for a user who has no creator profile is answered
  with status 400 and the error \<^verbatim>\<open>Creator profile not found\<close>, and the store, with its
  package, portfolio and KYC rows, is left as it was.
\<close>

theorem missing_creator_profile_is_400:
  assumes "BigInt L req_userId = Some uid"
    and "\<forall>c \<in> set (creatorProfiles d). cp_user_id c \<noteq> uid"
  shows "status creator_profile_not_found = 400
       \<and> body creator_profile_not_found = JObj [(''error'', JStr ''Creator profile not found'')]
       \<and> (package_validation preq = []
            \<and> authenticateToken L env w (pr_authorization preq) = Inr req_userId
          \<longrightarrow> response (create_package L env w d preq) = creator_profile_not_found
            \<and> db_after (create_package L env w d preq) = d)
       \<and> (portfolio_validation poreq = []
            \<and> authenticateToken L env w (po_authorization poreq) = Inr req_userId
          \<longrightarrow> response (create_portfolio L env w d poreq) = creator_profile_not_found
            \<and> db_after (create_portfolio L env w d poreq) = d)
       \<and> (kyc_validation kreq = []
            \<and> authenticateToken L env w (kr_authorization kreq) = Inr req_userId
          \<longrightarrow> response (submit_kyc L env w d kreq) = creator_profile_not_found
            \<and> db_after (submit_kyc L env w d kreq) = d)"
proof -
  from assms(2) have none: "find (\<lambda>c. cp_user_id c = uid) (creatorProfiles d) = None"
    by (simp add: find_None_iff)
  show ?thesis
    by (simp add: create_package_def create_portfolio_def submit_kyc_def validateRequest_def
        authenticated_def assms(1) none creator_profile_not_found_def res_status_json_def)
qed

theorem missing_creator_profile_is_400_witness:
  "BigInt plain_libs ''7'' = Some 7
   \<and> creatorProfiles db_user_only = []
   \<and> response (create_package plain_libs env_unconfigured (world_at 0) db_user_only
        the_package_request) = creator_profile_not_found
   \<and> db_after (create_package plain_libs env_unconfigured (world_at 0) db_user_only
        the_package_request) = db_user_only
   \<and> response (create_portfolio plain_libs env_unconfigured (world_at 0) db_user_only
        the_portfolio_request) = creator_profile_not_found
   \<and> db_after (create_portfolio plain_libs env_unconfigured (world_at 0) db_user_only
        the_portfolio_request) = db_user_only
   \<and> response (submit_kyc plain_libs env_unconfigured (world_at 0) db_user_only
        the_kyc_request) = creator_profile_not_found
   \<and> db_after (submit_kyc plain_libs env_unconfigured (world_at 0) db_user_only
        the_kyc_request) = db_user_only
   \<and> status creator_profile_not_found = 400"
proof -
  have none: "creatorProfiles db_user_only = []"
    by (simp add: db_user_only_def empty_db_def)
  then have no_profile: "\<forall>c \<in> set (creatorProfiles db_user_only). cp_user_id c \<noteq> 7"
    by simp
  have valid: "package_validation the_package_request = []"
    "portfolio_validation the_portfolio_request = []"
    "kyc_validation the_kyc_request = []"
    by (simp_all add: package_validation_def portfolio_validation_def kyc_validation_def
        check_def the_package_request_def the_portfolio_request_def the_kyc_request_def)
  have auth: "authenticateToken plain_libs env_unconfigured (world_at 0)
       (pr_authorization the_package_request) = Inr ''7''"
    "authenticateToken plain_libs env_unconfigured (world_at 0)
       (po_authorization the_portfolio_request) = Inr ''7''"
    "authenticateToken plain_libs env_unconfigured (world_at 0)
       (kr_authorization the_kyc_request) = Inr ''7''"
    by (simp_all add: the_package_request_def the_portfolio_request_def the_kyc_request_def
        user_token_authenticates)
  from missing_creator_profile_is_400 [where preq = the_package_request
      and poreq = the_portfolio_request and kreq = the_kyc_request
      and env = env_unconfigured and w = "world_at 0", OF plain_BigInt_7 no_profile]
    valid auth none plain_BigInt_7
  show ?thesis by simp
qed

end
